theory Spec2Isabelle
  imports Main "HOL-Library.Char_ord" "HOL-Library.List_Lexorder" "HOL-Library.Multiset"
begin

section \<open>Data model (storageManager.ts, interfaces Session, Log, LogGroup)\<close>

text \<open>
  The three interfaces of the storage manager become records.  Field names carry a
  one-letter prefix because \<open>id\<close>, \<open>name\<close>, \<open>sessionId\<close> and \<open>status\<close> occur in more
  than one interface.  The string-literal union types of the two \<open>status\<close> fields become
  datatypes.  An optional field (\<open>service?: string\<close>) is a \<open>string option\<close>; \<open>None\<close>
  stands for both \<open>undefined\<close> and the SQL \<open>NULL\<close> read back from a nullable column.
  Timestamps are the integers that \<open>Date.now()\<close> produces.  A text is the byte string
  (UTF-8) that the engine stores for it; a JavaScript string with an unpaired surrogate
  has no such form, is not read back as it was written, and is outside this model.
\<close>

datatype SessionStatus = Session_new | Session_in_progress | Session_completed

datatype LogGroupStatus = Group_new | Group_analyzing | Group_analyzed | Group_resolved

record Session =
  s_id :: string
  s_name :: string
  s_createdAt :: int
  s_updatedAt :: int
  s_cloudProvider :: string
  s_startTime :: int
  s_endTime :: int
  s_status :: SessionStatus

record Log =
  l_id :: string
  l_sessionId :: string
  l_logContent :: string
  l_timestamp :: int
  l_service :: "string option"
  l_logLevel :: "string option"
  l_groupId :: "string option"

record LogGroup =
  g_id :: string
  g_sessionId :: string
  g_name :: string
  g_description :: "string option"
  g_rootCause :: "string option"
  g_suggestedFix :: "string option"
  g_status :: LogGroupStatus

section \<open>The storage engine behind \<open>sqlite3.Database\<close>\<close>

text \<open>
  The schema is the one \<open>createTables\<close> sets up (database.ts, lines 49-97): three tables,
  each with \<open>id TEXT PRIMARY KEY\<close>.  A table is the list of its rows in insertion order.
  The source never issues \<open>PRAGMA foreign_keys = ON\<close>, so the two \<open>FOREIGN KEY\<close> clauses
  are not enforced by the engine and no statement below checks them.

  A connection is either usable (\<open>live\<close>) or the handle of a failed open.  \<open>journal\<close> is
  \<open>Some t\<close> while a transaction is open, \<open>t\<close> being the tables as they were at
  \<open>BEGIN TRANSACTION\<close>.
\<close>

record Tables =
  sessions :: "Session list"
  logs :: "Log list"
  log_groups :: "LogGroup list"

record Connection =
  live :: bool
  tables :: Tables
  journal :: "Tables option"

datatype sqlite_error =
    UNIQUE_constraint_failed string
  | Cannot_start_transaction
  | Cannot_commit
  | Cannot_rollback
  | MISUSE
  | Exec_failed string

datatype error =
    Database_not_initialized
  | Failed_to_open_database string
  | Sqlite sqlite_error
  | CreateDirectory_failed string

text \<open>
  A statement handed to \<open>run\<close> is represented by what it does to a connection: it fails
  with an engine error and changes nothing, or it yields the number of changed rows and
  the connection afterwards.  A query handed to \<open>get\<close> or \<open>all\<close> is represented by the
  function from the tables to its result.
\<close>

type_synonym statement = "Connection \<Rightarrow> sqlite_error + (nat \<times> Connection)"

definition on_tables :: "(Tables \<Rightarrow> sqlite_error + (nat \<times> Tables)) \<Rightarrow> statement" where
  "on_tables f c =
     (case f (tables c) of
        Inl e \<Rightarrow> Inl e
      | Inr (n, t) \<Rightarrow> Inr (n, c\<lparr>tables := t\<rparr>))"

text \<open>\<^verbatim>\<open>BEGIN TRANSACTION\<close>, \<^verbatim>\<open>COMMIT\<close>, \<^verbatim>\<open>ROLLBACK\<close>.\<close>

definition sql_begin_transaction :: statement where
  "sql_begin_transaction c =
     (case journal c of
        Some t \<Rightarrow> Inl Cannot_start_transaction
      | None \<Rightarrow> Inr (0, c\<lparr>journal := Some (tables c)\<rparr>))"

definition sql_commit :: statement where
  "sql_commit c =
     (case journal c of
        None \<Rightarrow> Inl Cannot_commit
      | Some t \<Rightarrow> Inr (0, c\<lparr>journal := None\<rparr>))"

definition sql_rollback :: statement where
  "sql_rollback c =
     (case journal c of
        None \<Rightarrow> Inl Cannot_rollback
      | Some t \<Rightarrow> Inr (0, c\<lparr>tables := t, journal := None\<rparr>))"

text \<open>\<^verbatim>\<open>INSERT INTO sessions (...) VALUES (?, ?, ?, ?, ?, ?, ?, ?)\<close>\<close>

definition sql_insert_session :: "Session \<Rightarrow> statement" where
  "sql_insert_session s = on_tables (\<lambda>t.
     if s_id s \<in> set (map s_id (sessions t))
     then Inl (UNIQUE_constraint_failed ''sessions.id'')
     else Inr (1, t\<lparr>sessions := sessions t @ [s]\<rparr>))"

text \<open>\<^verbatim>\<open>UPDATE sessions SET name = ?, updated_at = ?, cloud_provider = ?, start_time = ?,
  end_time = ?, status = ? WHERE id = ?\<close>\<close>

definition sql_update_session ::
  "string \<Rightarrow> int \<Rightarrow> string \<Rightarrow> int \<Rightarrow> int \<Rightarrow> SessionStatus \<Rightarrow> string \<Rightarrow> statement" where
  "sql_update_session nm upd prov st en stat i = on_tables (\<lambda>t.
     Inr (length (filter (\<lambda>r. s_id r = i) (sessions t)),
          t\<lparr>sessions := map (\<lambda>r. if s_id r = i
                 then r\<lparr>s_name := nm, s_updatedAt := upd, s_cloudProvider := prov,
                        s_startTime := st, s_endTime := en, s_status := stat\<rparr>
                 else r) (sessions t)\<rparr>))"

text \<open>\<^verbatim>\<open>DELETE FROM logs WHERE session_id = ?\<close>,
  \<^verbatim>\<open>DELETE FROM log_groups WHERE session_id = ?\<close>,
  \<^verbatim>\<open>DELETE FROM sessions WHERE id = ?\<close>\<close>

definition sql_delete_logs :: "string \<Rightarrow> statement" where
  "sql_delete_logs i = on_tables (\<lambda>t.
     Inr (length (filter (\<lambda>r. l_sessionId r = i) (logs t)),
          t\<lparr>logs := filter (\<lambda>r. l_sessionId r \<noteq> i) (logs t)\<rparr>))"

definition sql_delete_log_groups :: "string \<Rightarrow> statement" where
  "sql_delete_log_groups i = on_tables (\<lambda>t.
     Inr (length (filter (\<lambda>r. g_sessionId r = i) (log_groups t)),
          t\<lparr>log_groups := filter (\<lambda>r. g_sessionId r \<noteq> i) (log_groups t)\<rparr>))"

definition sql_delete_session :: "string \<Rightarrow> statement" where
  "sql_delete_session i = on_tables (\<lambda>t.
     Inr (length (filter (\<lambda>r. s_id r = i) (sessions t)),
          t\<lparr>sessions := filter (\<lambda>r. s_id r \<noteq> i) (sessions t)\<rparr>))"

text \<open>\<^verbatim>\<open>INSERT INTO logs (...) VALUES (?, ?, ?, ?, ?, ?, ?)\<close>\<close>

definition sql_insert_log :: "Log \<Rightarrow> statement" where
  "sql_insert_log l = on_tables (\<lambda>t.
     if l_id l \<in> set (map l_id (logs t))
     then Inl (UNIQUE_constraint_failed ''logs.id'')
     else Inr (1, t\<lparr>logs := logs t @ [l]\<rparr>))"

text \<open>\<^verbatim>\<open>INSERT INTO log_groups (...) VALUES (?, ?, ?, ?, ?, ?, ?)\<close>\<close>

definition sql_insert_log_group :: "LogGroup \<Rightarrow> statement" where
  "sql_insert_log_group g = on_tables (\<lambda>t.
     if g_id g \<in> set (map g_id (log_groups t))
     then Inl (UNIQUE_constraint_failed ''log_groups.id'')
     else Inr (1, t\<lparr>log_groups := log_groups t @ [g]\<rparr>))"

text \<open>\<^verbatim>\<open>UPDATE log_groups SET name = ?, description = ?, root_cause = ?, suggested_fix = ?,
  status = ? WHERE id = ?\<close>\<close>

definition sql_update_log_group ::
  "string \<Rightarrow> string option \<Rightarrow> string option \<Rightarrow> string option \<Rightarrow> LogGroupStatus \<Rightarrow> string
     \<Rightarrow> statement" where
  "sql_update_log_group nm descr cause fix stat i = on_tables (\<lambda>t.
     Inr (length (filter (\<lambda>r. g_id r = i) (log_groups t)),
          t\<lparr>log_groups := map (\<lambda>r. if g_id r = i
                 then r\<lparr>g_name := nm, g_description := descr, g_rootCause := cause,
                        g_suggestedFix := fix, g_status := stat\<rparr>
                 else r) (log_groups t)\<rparr>))"

text \<open>\<^verbatim>\<open>UPDATE logs SET group_id = ? WHERE id = ?\<close>\<close>

definition sql_update_log_group_id :: "string \<Rightarrow> string \<Rightarrow> statement" where
  "sql_update_log_group_id gid lid = on_tables (\<lambda>t.
     Inr (length (filter (\<lambda>r. l_id r = lid) (logs t)),
          t\<lparr>logs := map (\<lambda>r. if l_id r = lid then r\<lparr>l_groupId := Some gid\<rparr> else r)
                       (logs t)\<rparr>))"

text \<open>
  The queries.  \<open>ORDER BY k ASC\<close> is a sort on the key \<open>k\<close>; SQL leaves the order of rows
  with equal keys open, and the model keeps them in table order.  Text is compared
  bytewise (SQLite's default \<open>BINARY\<close> collation), which is the lexicographic order on
  \<open>string\<close>.
\<close>

definition find_first :: "('a \<Rightarrow> bool) \<Rightarrow> 'a list \<Rightarrow> 'a option" where
  "find_first P xs = (case filter P xs of [] \<Rightarrow> None | x # _ \<Rightarrow> Some x)"

definition sql_select_session :: "string \<Rightarrow> Tables \<Rightarrow> Session option" where
  "sql_select_session i t = find_first (\<lambda>r. s_id r = i) (sessions t)"

definition sql_select_all_sessions :: "Tables \<Rightarrow> Session list" where
  "sql_select_all_sessions t = sort_key (\<lambda>r. - s_updatedAt r) (sessions t)"

definition sql_select_session_logs :: "string \<Rightarrow> Tables \<Rightarrow> Log list" where
  "sql_select_session_logs i t =
     sort_key l_timestamp (filter (\<lambda>r. l_sessionId r = i) (logs t))"

definition sql_select_log_group :: "string \<Rightarrow> Tables \<Rightarrow> LogGroup option" where
  "sql_select_log_group i t = find_first (\<lambda>r. g_id r = i) (log_groups t)"

definition sql_select_session_log_groups :: "string \<Rightarrow> Tables \<Rightarrow> LogGroup list" where
  "sql_select_session_log_groups i t =
     sort_key g_name (filter (\<lambda>r. g_sessionId r = i) (log_groups t))"

definition sql_select_group_logs :: "string \<Rightarrow> Tables \<Rightarrow> Log list" where
  "sql_select_group_logs gid t =
     sort_key l_timestamp (filter (\<lambda>r. l_groupId r = Some gid) (logs t))"

section \<open>Class \<open>Database\<close> (database.ts)\<close>

text \<open>
  The only field that changes is \<open>db : sqlite3.Database | null\<close>.  Every method takes the
  object and returns its result together with the object afterwards; a rejected promise
  is \<open>Inl\<close>.
\<close>

record Database =
  db :: "Connection option"

definition new_Database :: Database where
  "new_Database = \<lparr>db = None\<rparr>"

text \<open>
  What the environment answers during \<open>initialize\<close>: whether \<open>createDirectory\<close> rejects,
  whether the engine opens the file (and the tables it finds there, all empty for a new
  file), and whether one of the \<open>CREATE TABLE IF NOT EXISTS\<close> statements fails.
\<close>

record InitEnv =
  createDirectory_error :: "string option"
  open_result :: "string + Tables"
  exec_error :: "string option"

definition empty_tables :: Tables where
  "empty_tables = \<lparr>sessions = [], logs = [], log_groups = []\<rparr>"

definition initialize :: "Database \<Rightarrow> InitEnv \<Rightarrow> (error + unit) \<times> Database" where
  "initialize d env =
     (case createDirectory_error env of
        Some msg \<Rightarrow> (Inl (CreateDirectory_failed msg), d)
      | None \<Rightarrow>
          (case open_result env of
             Inl msg \<Rightarrow>
               (Inl (Failed_to_open_database msg),
                d\<lparr>db := Some \<lparr>live = False, tables = empty_tables, journal = None\<rparr>\<rparr>)
           | Inr t \<Rightarrow>
               (case exec_error env of
                  Some msg \<Rightarrow>
                    (Inl (Sqlite (Exec_failed msg)),
                     d\<lparr>db := Some \<lparr>live = True, tables = t, journal = None\<rparr>\<rparr>)
                | None \<Rightarrow>
                    (Inr (), d\<lparr>db := Some \<lparr>live = True, tables = t, journal = None\<rparr>\<rparr>))))"

definition run :: "Database \<Rightarrow> statement \<Rightarrow> (error + nat) \<times> Database" where
  "run d sql =
     (case db d of
        None \<Rightarrow> (Inl Database_not_initialized, d)
      | Some c \<Rightarrow>
          (if \<not> live c then (Inl (Sqlite MISUSE), d)
           else (case sql c of
                   Inl e \<Rightarrow> (Inl (Sqlite e), d)
                 | Inr (n, c') \<Rightarrow> (Inr n, d\<lparr>db := Some c'\<rparr>))))"

definition get :: "Database \<Rightarrow> (Tables \<Rightarrow> 'a option) \<Rightarrow> error + 'a option" where
  "get d sql =
     (case db d of
        None \<Rightarrow> Inl Database_not_initialized
      | Some c \<Rightarrow> (if \<not> live c then Inl (Sqlite MISUSE) else Inr (sql (tables c))))"

definition all :: "Database \<Rightarrow> (Tables \<Rightarrow> 'a list) \<Rightarrow> error + 'a list" where
  "all d sql =
     (case db d of
        None \<Rightarrow> Inl Database_not_initialized
      | Some c \<Rightarrow> (if \<not> live c then Inl (Sqlite MISUSE) else Inr (sql (tables c))))"

text \<open>
  \<open>close\<close>: the second argument is the error the engine hands to the callback, if any.
  An object whose \<open>db\<close> is already \<open>null\<close> returns at once.
\<close>

definition close :: "Database \<Rightarrow> sqlite_error option \<Rightarrow> (error + unit) \<times> Database" where
  "close d err =
     (case db d of
        None \<Rightarrow> (Inr (), d)
      | Some c \<Rightarrow>
          (case err of
             Some e \<Rightarrow> (Inl (Sqlite e), d)
           | None \<Rightarrow> (Inr (), d\<lparr>db := None\<rparr>)))"

section \<open>Class \<open>StorageManager\<close> (storageManager.ts)\<close>

text \<open>
  The object holds the database and the current-session pointer.  \<open>Date.now()\<close> and
  \<open>uuidv4()\<close> are inputs from the environment and appear as the arguments \<open>now\<close> and
  \<open>uuid\<close>.  An \<open>await\<close> whose promise rejects leaves the method with that error, so each
  call of \<open>run\<close> is followed by a case split on its outcome.
\<close>

record StorageManager =
  sm_db :: Database
  currentSession :: "Session option"

definition new_StorageManager :: StorageManager where
  "new_StorageManager = \<lparr>sm_db = new_Database, currentSession = None\<rparr>"

text \<open>\<open>x || null\<close> on an optional string: \<open>undefined\<close>, \<open>null\<close> and the empty string
  all give \<open>null\<close>.\<close>

definition or_null :: "string option \<Rightarrow> string option" where
  "or_null x = (case x of None \<Rightarrow> None | Some v \<Rightarrow> (if v = [] then None else Some v))"

definition getCurrentSession :: "StorageManager \<Rightarrow> Session option" where
  "getCurrentSession m = currentSession m"

definition sm_initialize :: "StorageManager \<Rightarrow> InitEnv \<Rightarrow> (error + unit) \<times> StorageManager" where
  "sm_initialize m env =
     (case initialize (sm_db m) env of (r, d) \<Rightarrow> (r, m\<lparr>sm_db := d\<rparr>))"

definition createSession ::
  "StorageManager \<Rightarrow> string \<Rightarrow> string \<Rightarrow> int \<Rightarrow> int \<Rightarrow> int \<Rightarrow> string
     \<Rightarrow> (error + Session) \<times> StorageManager" where
  "createSession m name cloudProvider startTime endTime now uuid =
     (let session = \<lparr>s_id = uuid, s_name = name, s_createdAt = now, s_updatedAt = now,
                      s_cloudProvider = cloudProvider, s_startTime = startTime,
                      s_endTime = endTime, s_status = Session_new\<rparr>
      in case run (sm_db m) (sql_insert_session session) of
           (Inl e, d) \<Rightarrow> (Inl e, m\<lparr>sm_db := d\<rparr>)
         | (Inr n, d) \<Rightarrow> (Inr session, m\<lparr>sm_db := d\<rparr>))"

definition getSession :: "StorageManager \<Rightarrow> string \<Rightarrow> error + Session option" where
  "getSession m i = get (sm_db m) (sql_select_session i)"

definition getAllSessions :: "StorageManager \<Rightarrow> error + Session list" where
  "getAllSessions m = all (sm_db m) sql_select_all_sessions"

definition setCurrentSession ::
  "StorageManager \<Rightarrow> string \<Rightarrow> (error + Session option) \<times> StorageManager" where
  "setCurrentSession m sessionId =
     (case getSession m sessionId of
        Inl e \<Rightarrow> (Inl e, m)
      | Inr (Some session) \<Rightarrow> (Inr (Some session), m\<lparr>currentSession := Some session\<rparr>)
      | Inr None \<Rightarrow> (Inr None, m))"

text \<open>
  \<open>updateSession\<close> first assigns \<open>session.updatedAt = Date.now()\<close> on the caller's object
  and, when the write succeeds, returns that same object.  The result is therefore a
  triple: the outcome of the call, the caller's object as it is after the call (the
  assignment has happened even when \<open>run\<close> rejects), and the storage manager.
\<close>

definition updateSession ::
  "StorageManager \<Rightarrow> Session \<Rightarrow> int \<Rightarrow> (error + Session) \<times> Session \<times> StorageManager" where
  "updateSession m session0 now =
     (let session = session0\<lparr>s_updatedAt := now\<rparr>
      in case run (sm_db m)
                (sql_update_session (s_name session) (s_updatedAt session)
                   (s_cloudProvider session) (s_startTime session) (s_endTime session)
                   (s_status session) (s_id session)) of
           (Inl e, d) \<Rightarrow> (Inl e, session, m\<lparr>sm_db := d\<rparr>)
         | (Inr n, d) \<Rightarrow> (Inr session, session, m\<lparr>sm_db := d\<rparr>))"

text \<open>
  \<open>deleteSession\<close> awaits three statements one after the other (lines 202, 205, 208)
  and does nothing else.  Its body is the list of these statements in program order,
  run by \<open>run_sequence\<close>, which stops at the first rejected one as the \<open>await\<close>s do.
  A prefix of the list is what has been executed when the call is suspended, or the
  process stops, after that many statements.
\<close>

fun run_sequence :: "Database \<Rightarrow> statement list \<Rightarrow> (error + unit) \<times> Database" where
  "run_sequence d [] = (Inr (), d)"
| "run_sequence d (sql # rest) =
     (case run d sql of
        (Inl e, d') \<Rightarrow> (Inl e, d')
      | (Inr n, d') \<Rightarrow> run_sequence d' rest)"

definition deleteSession_statements :: "string \<Rightarrow> statement list" where
  "deleteSession_statements i =
     [sql_delete_logs i, sql_delete_log_groups i, sql_delete_session i]"

definition deleteSession :: "StorageManager \<Rightarrow> string \<Rightarrow> (error + unit) \<times> StorageManager" where
  "deleteSession m i =
     (case run_sequence (sm_db m) (deleteSession_statements i) of
        (r, d) \<Rightarrow> (r, m\<lparr>sm_db := d\<rparr>))"

text \<open>The row that \<open>saveLogs\<close> binds for one log: the three optional fields pass
  through \<open>|| null\<close>.\<close>

definition log_row :: "Log \<Rightarrow> Log" where
  "log_row log = log\<lparr>l_service := or_null (l_service log),
                     l_logLevel := or_null (l_logLevel log),
                     l_groupId := or_null (l_groupId log)\<rparr>"

text \<open>The \<open>for (const log of logs)\<close> loop of \<open>saveLogs\<close>; it stops at the first
  rejected insert.\<close>

fun saveLogs_loop :: "Database \<Rightarrow> Log list \<Rightarrow> (error + unit) \<times> Database" where
  "saveLogs_loop d [] = (Inr (), d)"
| "saveLogs_loop d (log # rest) =
     (case run d (sql_insert_log (log_row log)) of
        (Inl e, d') \<Rightarrow> (Inl e, d')
      | (Inr n, d') \<Rightarrow> saveLogs_loop d' rest)"

text \<open>The \<open>catch (error)\<close> block shared by \<open>saveLogs\<close> and \<open>assignLogsToGroup\<close>:
  \<open>ROLLBACK\<close>, then rethrow; a rejected \<open>ROLLBACK\<close> replaces the error.\<close>

definition rollback_and_rethrow :: "error \<Rightarrow> Database \<Rightarrow> (error + unit) \<times> Database" where
  "rollback_and_rethrow e d =
     (case run d sql_rollback of
        (Inl e', d') \<Rightarrow> (Inl e', d')
      | (Inr n, d') \<Rightarrow> (Inl e, d'))"

definition saveLogs :: "StorageManager \<Rightarrow> Log list \<Rightarrow> (error + unit) \<times> StorageManager" where
  "saveLogs m logs' =
     (case run (sm_db m) sql_begin_transaction of
        (Inl e, d0) \<Rightarrow> (Inl e, m\<lparr>sm_db := d0\<rparr>)
      | (Inr n0, d0) \<Rightarrow>
          (case saveLogs_loop d0 logs' of
             (Inl e, d1) \<Rightarrow>
               (case rollback_and_rethrow e d1 of (r, d') \<Rightarrow> (r, m\<lparr>sm_db := d'\<rparr>))
           | (Inr u, d1) \<Rightarrow>
               (case run d1 sql_commit of
                  (Inl e, d2) \<Rightarrow>
                    (case rollback_and_rethrow e d2 of (r, d') \<Rightarrow> (r, m\<lparr>sm_db := d'\<rparr>))
                | (Inr n2, d2) \<Rightarrow> (Inr (), m\<lparr>sm_db := d2\<rparr>))))"

definition getSessionLogs :: "StorageManager \<Rightarrow> string \<Rightarrow> error + Log list" where
  "getSessionLogs m sessionId = all (sm_db m) (sql_select_session_logs sessionId)"

definition createLogGroup ::
  "StorageManager \<Rightarrow> string \<Rightarrow> string \<Rightarrow> string option \<Rightarrow> string
     \<Rightarrow> (error + LogGroup) \<times> StorageManager" where
  "createLogGroup m sessionId name description uuid =
     (let logGroup = \<lparr>g_id = uuid, g_sessionId = sessionId, g_name = name,
                       g_description = description, g_rootCause = None,
                       g_suggestedFix = None, g_status = Group_new\<rparr>
      in case run (sm_db m)
                (sql_insert_log_group
                   (logGroup\<lparr>g_description := or_null (g_description logGroup),
                             g_rootCause := or_null (g_rootCause logGroup),
                             g_suggestedFix := or_null (g_suggestedFix logGroup)\<rparr>)) of
           (Inl e, d) \<Rightarrow> (Inl e, m\<lparr>sm_db := d\<rparr>)
         | (Inr n, d) \<Rightarrow> (Inr logGroup, m\<lparr>sm_db := d\<rparr>))"

definition getLogGroup :: "StorageManager \<Rightarrow> string \<Rightarrow> error + LogGroup option" where
  "getLogGroup m i = get (sm_db m) (sql_select_log_group i)"

definition getSessionLogGroups :: "StorageManager \<Rightarrow> string \<Rightarrow> error + LogGroup list" where
  "getSessionLogGroups m sessionId =
     all (sm_db m) (sql_select_session_log_groups sessionId)"

definition updateLogGroup ::
  "StorageManager \<Rightarrow> LogGroup \<Rightarrow> (error + LogGroup) \<times> StorageManager" where
  "updateLogGroup m logGroup =
     (case run (sm_db m)
             (sql_update_log_group (g_name logGroup) (or_null (g_description logGroup))
                (or_null (g_rootCause logGroup)) (or_null (g_suggestedFix logGroup))
                (g_status logGroup) (g_id logGroup)) of
        (Inl e, d) \<Rightarrow> (Inl e, m\<lparr>sm_db := d\<rparr>)
      | (Inr n, d) \<Rightarrow> (Inr logGroup, m\<lparr>sm_db := d\<rparr>))"

text \<open>The \<open>for (const logId of logIds)\<close> loop of \<open>assignLogsToGroup\<close>.\<close>

fun assignLogsToGroup_loop ::
  "Database \<Rightarrow> string \<Rightarrow> string list \<Rightarrow> (error + unit) \<times> Database" where
  "assignLogsToGroup_loop d groupId [] = (Inr (), d)"
| "assignLogsToGroup_loop d groupId (logId # rest) =
     (case run d (sql_update_log_group_id groupId logId) of
        (Inl e, d') \<Rightarrow> (Inl e, d')
      | (Inr n, d') \<Rightarrow> assignLogsToGroup_loop d' groupId rest)"

definition assignLogsToGroup ::
  "StorageManager \<Rightarrow> string \<Rightarrow> string list \<Rightarrow> (error + unit) \<times> StorageManager" where
  "assignLogsToGroup m groupId logIds =
     (case run (sm_db m) sql_begin_transaction of
        (Inl e, d0) \<Rightarrow> (Inl e, m\<lparr>sm_db := d0\<rparr>)
      | (Inr n0, d0) \<Rightarrow>
          (case assignLogsToGroup_loop d0 groupId logIds of
             (Inl e, d1) \<Rightarrow>
               (case rollback_and_rethrow e d1 of (r, d') \<Rightarrow> (r, m\<lparr>sm_db := d'\<rparr>))
           | (Inr u, d1) \<Rightarrow>
               (case run d1 sql_commit of
                  (Inl e, d2) \<Rightarrow>
                    (case rollback_and_rethrow e d2 of (r, d') \<Rightarrow> (r, m\<lparr>sm_db := d'\<rparr>))
                | (Inr n2, d2) \<Rightarrow> (Inr (), m\<lparr>sm_db := d2\<rparr>))))"

definition getGroupLogs :: "StorageManager \<Rightarrow> string \<Rightarrow> error + Log list" where
  "getGroupLogs m groupId = all (sm_db m) (sql_select_group_logs groupId)"

definition sm_close ::
  "StorageManager \<Rightarrow> sqlite_error option \<Rightarrow> (error + unit) \<times> StorageManager" where
  "sm_close m err = (case close (sm_db m) err of (r, d) \<Rightarrow> (r, m\<lparr>sm_db := d\<rparr>))"

section \<open>Auxiliary notions for the statements\<close>

text \<open>
  \<open>primary_keys\<close>: what the three \<open>PRIMARY KEY\<close> constraints maintain.
  \<open>no_conflict stored batch\<close>: no identifier of the batch occurs twice in it or is
  already stored, which is when none of the inserts of \<open>saveLogs\<close> violates the key of
  \<open>logs\<close>.  \<open>assigned gid ids rows\<close>: the rows with \<open>group_id\<close> set to \<open>gid\<close> on every
  row whose identifier is in \<open>ids\<close>.
\<close>

definition primary_keys :: "Tables \<Rightarrow> bool" where
  "primary_keys t \<longleftrightarrow>
     distinct (map s_id (sessions t)) \<and> distinct (map l_id (logs t))
     \<and> distinct (map g_id (log_groups t))"

definition no_conflict :: "Log list \<Rightarrow> Log list \<Rightarrow> bool" where
  "no_conflict stored batch \<longleftrightarrow>
     distinct (map l_id batch) \<and> l_id ` set batch \<inter> l_id ` set stored = {}"

definition assigned :: "string \<Rightarrow> string set \<Rightarrow> Log list \<Rightarrow> Log list" where
  "assigned gid ids rows =
     map (\<lambda>r. if l_id r \<in> ids then r\<lparr>l_groupId := Some gid\<rparr> else r) rows"

text \<open>
  \<open>store_ok\<close>: the state of the storage manager between two calls made one after the
  other on an initialized store: the connection is open and usable, no transaction is
  in progress, and the primary keys hold.
\<close>

definition store_ok :: "StorageManager \<Rightarrow> bool" where
  "store_ok m \<longleftrightarrow>
     (case db (sm_db m) of
        None \<Rightarrow> False
      | Some c \<Rightarrow> live c \<and> journal c = None \<and> primary_keys (tables c))"

subsection \<open>A small store, built by the operations themselves\<close>

text \<open>
  The scenario of the specification: a session created at time 1000, two logs saved
  (the later one first), two groups created, the first log assigned to the first group,
  and the session selected as the current one.
\<close>

definition demo_env :: InitEnv where
  "demo_env = \<lparr>createDirectory_error = None, open_result = Inr empty_tables,
               exec_error = None\<rparr>"

definition demo_session :: Session where
  "demo_session = \<lparr>s_id = ''S1'', s_name = ''Outage-42'', s_createdAt = 1000,
                    s_updatedAt = 1000, s_cloudProvider = ''aws'', s_startTime = 0,
                    s_endTime = 1000, s_status = Session_new\<rparr>"

definition demo_L1 :: Log where
  "demo_L1 = \<lparr>l_id = ''L1'', l_sessionId = ''S1'', l_logContent = ''Error in service A'',
               l_timestamp = 20, l_service = Some ''ServiceA'', l_logLevel = Some ''error'',
               l_groupId = None\<rparr>"

definition demo_L2 :: Log where
  "demo_L2 = \<lparr>l_id = ''L2'', l_sessionId = ''S1'', l_logContent = ''Warning in service B'',
               l_timestamp = 10, l_service = Some ''ServiceB'', l_logLevel = Some [],
               l_groupId = None\<rparr>"

definition demo_L3 :: Log where
  "demo_L3 = \<lparr>l_id = ''L3'', l_sessionId = ''S1'', l_logContent = ''Timeout'',
               l_timestamp = 30, l_service = None, l_logLevel = None, l_groupId = None\<rparr>"

definition demo_GA :: LogGroup where
  "demo_GA = \<lparr>g_id = ''GA'', g_sessionId = ''S1'', g_name = ''Service A errors'',
               g_description = None, g_rootCause = None, g_suggestedFix = None,
               g_status = Group_new\<rparr>"

definition demo_GB :: LogGroup where
  "demo_GB = \<lparr>g_id = ''GB'', g_sessionId = ''S1'', g_name = ''Other'',
               g_description = None, g_rootCause = None, g_suggestedFix = None,
               g_status = Group_new\<rparr>"

definition demo_m0 :: StorageManager where
  "demo_m0 = snd (sm_initialize new_StorageManager demo_env)"

definition demo_m1 :: StorageManager where
  "demo_m1 = snd (createSession demo_m0 ''Outage-42'' ''aws'' 0 1000 1000 ''S1'')"

definition demo_m2 :: StorageManager where
  "demo_m2 = snd (saveLogs demo_m1 [demo_L1, demo_L2])"

definition demo_m3 :: StorageManager where
  "demo_m3 = snd (createLogGroup
                    (snd (createLogGroup demo_m2 ''S1'' ''Service A errors'' None ''GA''))
                    ''S1'' ''Other'' None ''GB'')"

definition demo_m4 :: StorageManager where
  "demo_m4 = snd (assignLogsToGroup demo_m3 ''GA'' [''L1''])"

definition demo_store :: StorageManager where
  "demo_store = snd (setCurrentSession demo_m4 ''S1'')"

definition demo_tables :: Tables where
  "demo_tables =
     \<lparr>sessions = [demo_session],
      logs = [demo_L1\<lparr>l_groupId := Some ''GA''\<rparr>, demo_L2\<lparr>l_logLevel := None\<rparr>],
      log_groups = [demo_GA, demo_GB]\<rparr>"

definition demo_conn :: Connection where
  "demo_conn = \<lparr>live = True, tables = demo_tables, journal = None\<rparr>"







definition demo_stale :: Session where
  "demo_stale = demo_session\<lparr>s_name := ''Renamed'', s_updatedAt := 5\<rparr>"

definition demo_closed :: StorageManager where
  "demo_closed = snd (sm_close demo_store None)"

section \<open>Facts about the engine and the \<open>Database\<close> methods\<close>

lemma run_not_initialized: "db d = None \<Longrightarrow> run d sql = (Inl Database_not_initialized, d)"
  by (simp add: run_def)

lemma get_not_initialized: "db d = None \<Longrightarrow> get d q = Inl Database_not_initialized"
  by (simp add: get_def)

lemma all_not_initialized: "db d = None \<Longrightarrow> all d q = Inl Database_not_initialized"
  by (simp add: all_def)

lemma run_live:
  "db d = Some c \<Longrightarrow> live c \<Longrightarrow>
   run d sql = (case sql c of Inl e \<Rightarrow> (Inl (Sqlite e), d)
                | Inr (n, c') \<Rightarrow> (Inr n, d\<lparr>db := Some c'\<rparr>))"
  by (simp add: run_def)

lemma get_live: "db d = Some c \<Longrightarrow> live c \<Longrightarrow> get d q = Inr (q (tables c))"
  by (simp add: get_def)

lemma all_live: "db d = Some c \<Longrightarrow> live c \<Longrightarrow> all d q = Inr (q (tables c))"
  by (simp add: all_def)

lemma db_same [simp]: "db d = Some c \<Longrightarrow> d\<lparr>db := Some c\<rparr> = d"
  by (cases d) simp

lemma close_ok_db: "close d err = (Inr u, d') \<Longrightarrow> db d' = None"
  by (auto simp: close_def split: option.splits)

lemma sm_close_ok_db: "sm_close m0 err = (Inr u, m) \<Longrightarrow> db (sm_db m) = None"
  by (auto simp: sm_close_def split: prod.splits dest: close_ok_db)

lemma on_tables_Inr:
  "on_tables (\<lambda>t. Inr (g t, h t)) c = Inr (g (tables c), c\<lparr>tables := h (tables c)\<rparr>)"
  by (simp add: on_tables_def)

lemma run_begin_transaction:
  "db d = Some c \<Longrightarrow> live c \<Longrightarrow> journal c = None \<Longrightarrow>
   run d sql_begin_transaction = (Inr 0, d\<lparr>db := Some (c\<lparr>journal := Some (tables c)\<rparr>)\<rparr>)"
  by (simp add: run_live sql_begin_transaction_def)

lemma run_commit:
  "db d = Some c \<Longrightarrow> live c \<Longrightarrow> journal c = Some t \<Longrightarrow>
   run d sql_commit = (Inr 0, d\<lparr>db := Some (c\<lparr>journal := None\<rparr>)\<rparr>)"
  by (simp add: run_live sql_commit_def)

lemma run_rollback:
  "db d = Some c \<Longrightarrow> live c \<Longrightarrow> journal c = Some t \<Longrightarrow>
   run d sql_rollback = (Inr 0, d\<lparr>db := Some (c\<lparr>tables := t, journal := None\<rparr>)\<rparr>)"
  by (simp add: run_live sql_rollback_def)



lemma run_insert_log:
  "db d = Some c \<Longrightarrow> live c \<Longrightarrow>
   run d (sql_insert_log l) =
     (if l_id l \<in> l_id ` set (logs (tables c))
      then (Inl (Sqlite (UNIQUE_constraint_failed ''logs.id'')), d)
      else (Inr 1, d\<lparr>db := Some (c\<lparr>tables := (tables c)\<lparr>logs := logs (tables c) @ [l]\<rparr>\<rparr>)\<rparr>))"
  by (simp add: run_live sql_insert_log_def on_tables_def)

lemma run_update_session:
  "db d = Some c \<Longrightarrow> live c \<Longrightarrow>
   run d (sql_update_session nm upd prov st en stat i) =
     (Inr (length (filter (\<lambda>r. s_id r = i) (sessions (tables c)))),
      d\<lparr>db := Some (c\<lparr>tables := (tables c)\<lparr>sessions :=
         map (\<lambda>r. if s_id r = i
                 then r\<lparr>s_name := nm, s_updatedAt := upd, s_cloudProvider := prov,
                        s_startTime := st, s_endTime := en, s_status := stat\<rparr>
                 else r) (sessions (tables c))\<rparr>\<rparr>)\<rparr>)"
  by (simp add: run_live sql_update_session_def on_tables_Inr)

lemma run_update_log_group:
  "db d = Some c \<Longrightarrow> live c \<Longrightarrow>
   run d (sql_update_log_group nm descr cause fix stat i) =
     (Inr (length (filter (\<lambda>r. g_id r = i) (log_groups (tables c)))),
      d\<lparr>db := Some (c\<lparr>tables := (tables c)\<lparr>log_groups :=
         map (\<lambda>r. if g_id r = i
                 then r\<lparr>g_name := nm, g_description := descr, g_rootCause := cause,
                        g_suggestedFix := fix, g_status := stat\<rparr>
                 else r) (log_groups (tables c))\<rparr>\<rparr>)\<rparr>)"
  by (simp add: run_live sql_update_log_group_def on_tables_Inr)

lemma run_update_log_group_id:
  "db d = Some c \<Longrightarrow> live c \<Longrightarrow>
   run d (sql_update_log_group_id gid lid) =
     (Inr (length (filter (\<lambda>r. l_id r = lid) (logs (tables c)))),
      d\<lparr>db := Some (c\<lparr>tables := (tables c)\<lparr>logs :=
         map (\<lambda>r. if l_id r = lid then r\<lparr>l_groupId := Some gid\<rparr> else r)
           (logs (tables c))\<rparr>\<rparr>)\<rparr>)"
  by (simp add: run_live sql_update_log_group_id_def on_tables_Inr)

lemma run_delete_logs:
  "db d = Some c \<Longrightarrow> live c \<Longrightarrow>
   run d (sql_delete_logs i) =
     (Inr (length (filter (\<lambda>r. l_sessionId r = i) (logs (tables c)))),
      d\<lparr>db := Some (c\<lparr>tables := (tables c)\<lparr>logs :=
         filter (\<lambda>r. l_sessionId r \<noteq> i) (logs (tables c))\<rparr>\<rparr>)\<rparr>)"
  by (simp add: run_live sql_delete_logs_def on_tables_Inr)

lemma run_delete_log_groups:
  "db d = Some c \<Longrightarrow> live c \<Longrightarrow>
   run d (sql_delete_log_groups i) =
     (Inr (length (filter (\<lambda>r. g_sessionId r = i) (log_groups (tables c)))),
      d\<lparr>db := Some (c\<lparr>tables := (tables c)\<lparr>log_groups :=
         filter (\<lambda>r. g_sessionId r \<noteq> i) (log_groups (tables c))\<rparr>\<rparr>)\<rparr>)"
  by (simp add: run_live sql_delete_log_groups_def on_tables_Inr)

lemma run_delete_session:
  "db d = Some c \<Longrightarrow> live c \<Longrightarrow>
   run d (sql_delete_session i) =
     (Inr (length (filter (\<lambda>r. s_id r = i) (sessions (tables c)))),
      d\<lparr>db := Some (c\<lparr>tables := (tables c)\<lparr>sessions :=
         filter (\<lambda>r. s_id r \<noteq> i) (sessions (tables c))\<rparr>\<rparr>)\<rparr>)"
  by (simp add: run_live sql_delete_session_def on_tables_Inr)

subsection \<open>Looking a row up by its key\<close>

lemma find_first_None: "k \<notin> f ` set xs \<Longrightarrow> find_first (\<lambda>r. f r = k) xs = None"
  by (induction xs) (auto simp: find_first_def)



lemma find_first_distinct:
  "distinct (map f xs) \<Longrightarrow> x \<in> set xs \<Longrightarrow> find_first (\<lambda>r. f r = f x) xs = Some x"
proof (induction xs)
  case Nil
  then show ?case by simp
next
  case (Cons y ys)
  show ?case
  proof (cases "f y = f x")
    case True
    with Cons.prems have "y = x" by (auto simp: image_iff)
    then show ?thesis by (simp add: find_first_def)
  next
    case False
    with Cons have "find_first (\<lambda>r. f r = f x) ys = Some x" by auto
    with False show ?thesis by (simp add: find_first_def)
  qed
qed

lemma find_first_map_update:
  "distinct (map f xs) \<Longrightarrow> x \<in> set xs \<Longrightarrow> (\<And>r. f (g r) = f r) \<Longrightarrow>
   find_first (\<lambda>r. f r = f x) (map (\<lambda>r. if f r = f x then g r else r) xs) = Some (g x)"
proof (induction xs)
  case Nil
  then show ?case by simp
next
  case (Cons y ys)
  show ?case
  proof (cases "f y = f x")
    case True
    with Cons.prems have "y = x" by (auto simp: image_iff)
    then show ?thesis by (simp add: find_first_def Cons.prems(3))
  next
    case False
    with Cons
    have "find_first (\<lambda>r. f r = f x) (map (\<lambda>r. if f r = f x then g r else r) ys) = Some (g x)"
      by auto
    with False show ?thesis by (simp add: find_first_def)
  qed
qed

lemma find_first_map_other:
  "k \<noteq> j \<Longrightarrow> (\<And>r. f (g r) = f r) \<Longrightarrow>
   find_first (\<lambda>r. f r = k) (map (\<lambda>r. if f r = j then g r else r) xs)
     = find_first (\<lambda>r. f r = k) xs"
proof (induction xs)
  case Nil
  then show ?case by simp
next
  case (Cons y ys)
  then have "filter (\<lambda>r. f r = k) (map (\<lambda>r. if f r = j then g r else r) ys)
               = filter (\<lambda>r. f r = k) ys
             \<or> filter (\<lambda>r. f r = k) ys \<noteq> []
                \<and> filter (\<lambda>r. f r = k) (map (\<lambda>r. if f r = j then g r else r) ys) \<noteq> []"
    by (auto simp: find_first_def split: list.splits)
  with Cons show ?case
    by (auto simp: find_first_def split: list.splits)
qed



lemma map_unmatched: "k \<notin> f ` set xs \<Longrightarrow> map (\<lambda>r. if f r = k then g r else r) xs = xs"
  by (induction xs) auto

lemma filter_unmatched: "k \<notin> f ` set xs \<Longrightarrow> filter (\<lambda>r. f r = k) xs = []"
  by (induction xs) auto

subsection \<open>The statements of \<open>deleteSession\<close>\<close>

text \<open>Written out, \<open>deleteSession\<close> is the three awaits of the source.\<close>

lemma deleteSession_unfold:
  "deleteSession m i =
     (case run (sm_db m) (sql_delete_logs i) of
        (Inl e, d1) \<Rightarrow> (Inl e, m\<lparr>sm_db := d1\<rparr>)
      | (Inr n1, d1) \<Rightarrow>
          (case run d1 (sql_delete_log_groups i) of
             (Inl e, d2) \<Rightarrow> (Inl e, m\<lparr>sm_db := d2\<rparr>)
           | (Inr n2, d2) \<Rightarrow>
               (case run d2 (sql_delete_session i) of
                  (Inl e, d3) \<Rightarrow> (Inl e, m\<lparr>sm_db := d3\<rparr>)
                | (Inr n3, d3) \<Rightarrow> (Inr (), m\<lparr>sm_db := d3\<rparr>))))"
  by (simp add: deleteSession_def deleteSession_statements_def split: prod.splits sum.splits)

subsection \<open>The two loops\<close>

lemma l_id_log_row [simp]: "l_id (log_row l) = l_id l"
  by (simp add: log_row_def)

lemma l_sessionId_log_row [simp]: "l_sessionId (log_row l) = l_sessionId l"
  by (simp add: log_row_def)

lemma no_conflict_Cons:
  "no_conflict stored (l # batch) \<longleftrightarrow>
     l_id l \<notin> l_id ` set stored \<and> no_conflict (stored @ [log_row l]) batch"
  by (auto simp: no_conflict_def)

lemma saveLogs_loop_ok:
  "db d = Some c \<Longrightarrow> live c \<Longrightarrow> no_conflict (logs (tables c)) batch \<Longrightarrow>
   saveLogs_loop d batch =
     (Inr (), d\<lparr>db := Some (c\<lparr>tables := (tables c)\<lparr>logs :=
                  logs (tables c) @ map log_row batch\<rparr>\<rparr>)\<rparr>)"
proof (induction batch arbitrary: d c)
  case Nil
  then show ?case by simp
next
  case (Cons l batch)
  let ?c = "c\<lparr>tables := (tables c)\<lparr>logs := logs (tables c) @ [log_row l]\<rparr>\<rparr>"
  let ?d = "d\<lparr>db := Some ?c\<rparr>"
  from Cons.prems have fresh: "l_id l \<notin> l_id ` set (logs (tables c))"
    and rest: "no_conflict (logs (tables ?c)) batch"
    by (simp_all add: no_conflict_Cons)
  have step: "run d (sql_insert_log (log_row l)) = (Inr 1, ?d)"
    using Cons.prems(1,2) fresh by (simp add: run_insert_log)
  have "saveLogs_loop ?d batch =
          (Inr (), ?d\<lparr>db := Some (?c\<lparr>tables := (tables ?c)\<lparr>logs :=
                      logs (tables ?c) @ map log_row batch\<rparr>\<rparr>)\<rparr>)"
    using Cons.prems(2) rest by (intro Cons.IH) simp_all
  with step show ?case by simp
qed

lemma saveLogs_loop_fails:
  "db d = Some c \<Longrightarrow> live c \<Longrightarrow> \<not> no_conflict (logs (tables c)) batch \<Longrightarrow>
   \<exists>t'. saveLogs_loop d batch =
          (Inl (Sqlite (UNIQUE_constraint_failed ''logs.id'')),
           d\<lparr>db := Some (c\<lparr>tables := t'\<rparr>)\<rparr>)"
proof (induction batch arbitrary: d c)
  case Nil
  then show ?case by (simp add: no_conflict_def)
next
  case (Cons l batch)
  show ?case
  proof (cases "l_id l \<in> l_id ` set (logs (tables c))")
    case True
    with Cons.prems(1,2) have "saveLogs_loop d (l # batch) =
        (Inl (Sqlite (UNIQUE_constraint_failed ''logs.id'')),
         d\<lparr>db := Some (c\<lparr>tables := tables c\<rparr>)\<rparr>)"
      by (simp add: run_insert_log)
    then show ?thesis by blast
  next
    case False
    let ?c = "c\<lparr>tables := (tables c)\<lparr>logs := logs (tables c) @ [log_row l]\<rparr>\<rparr>"
    let ?d = "d\<lparr>db := Some ?c\<rparr>"
    from False Cons.prems(3) have rest: "\<not> no_conflict (logs (tables ?c)) batch"
      by (simp add: no_conflict_Cons)
    have step: "run d (sql_insert_log (log_row l)) = (Inr 1, ?d)"
      using Cons.prems(1,2) False by (simp add: run_insert_log)
    have "\<exists>t'. saveLogs_loop ?d batch =
            (Inl (Sqlite (UNIQUE_constraint_failed ''logs.id'')),
             ?d\<lparr>db := Some (?c\<lparr>tables := t'\<rparr>)\<rparr>)"
      using Cons.prems(2) rest by (intro Cons.IH) simp_all
    with step show ?thesis by simp
  qed
qed

lemma saveLogs_ok:
  assumes "db (sm_db m) = Some c" and "live c" and "journal c = None"
    and "no_conflict (logs (tables c)) batch"
  shows "saveLogs m batch =
           (Inr (), m\<lparr>sm_db := (sm_db m)\<lparr>db := Some (c\<lparr>tables := (tables c)\<lparr>logs :=
                       logs (tables c) @ map log_row batch\<rparr>\<rparr>)\<rparr>\<rparr>)"
proof -
  let ?c0 = "c\<lparr>journal := Some (tables c)\<rparr>"
  let ?d0 = "(sm_db m)\<lparr>db := Some ?c0\<rparr>"
  let ?c1 = "?c0\<lparr>tables := (tables ?c0)\<lparr>logs := logs (tables ?c0) @ map log_row batch\<rparr>\<rparr>"
  let ?d1 = "?d0\<lparr>db := Some ?c1\<rparr>"
  have b: "run (sm_db m) sql_begin_transaction = (Inr 0, ?d0)"
    using assms by (simp add: run_begin_transaction)
  have l: "saveLogs_loop ?d0 batch = (Inr (), ?d1)"
    using assms by (intro saveLogs_loop_ok) simp_all
  have c: "run ?d1 sql_commit = (Inr 0, ?d1\<lparr>db := Some (?c1\<lparr>journal := None\<rparr>)\<rparr>)"
    using assms by (intro run_commit) simp_all
  have "?c1\<lparr>journal := None\<rparr> =
          c\<lparr>tables := (tables c)\<lparr>logs := logs (tables c) @ map log_row batch\<rparr>\<rparr>"
    using assms(3) by (cases c) simp
  with b l c show ?thesis
    by (simp add: saveLogs_def)
qed

lemma saveLogs_fails:
  assumes "db (sm_db m) = Some c" and "live c" and "journal c = None"
    and "\<not> no_conflict (logs (tables c)) batch"
  shows "saveLogs m batch = (Inl (Sqlite (UNIQUE_constraint_failed ''logs.id'')), m)"
proof -
  let ?c0 = "c\<lparr>journal := Some (tables c)\<rparr>"
  let ?d0 = "(sm_db m)\<lparr>db := Some ?c0\<rparr>"
  have b: "run (sm_db m) sql_begin_transaction = (Inr 0, ?d0)"
    using assms by (simp add: run_begin_transaction)
  obtain t' where l: "saveLogs_loop ?d0 batch =
      (Inl (Sqlite (UNIQUE_constraint_failed ''logs.id'')),
       ?d0\<lparr>db := Some (?c0\<lparr>tables := t'\<rparr>)\<rparr>)"
    using saveLogs_loop_fails [of ?d0 ?c0 batch] assms by auto
  let ?d1 = "?d0\<lparr>db := Some (?c0\<lparr>tables := t'\<rparr>)\<rparr>"
  have r: "run ?d1 sql_rollback =
             (Inr 0, ?d1\<lparr>db := Some (?c0\<lparr>tables := t'\<rparr>\<lparr>tables := tables c, journal := None\<rparr>)\<rparr>)"
    using assms(2) by (intro run_rollback) simp_all
  have "?c0\<lparr>tables := t'\<rparr>\<lparr>tables := tables c, journal := None\<rparr> = c"
    using assms(3) by (cases c) simp
  with b l r assms(1) show ?thesis
    by (simp add: saveLogs_def rollback_and_rethrow_def)
qed

lemma assigned_empty [simp]: "assigned gid {} rows = rows"
  by (simp add: assigned_def)

lemma assigned_insert:
  "assigned gid ids (map (\<lambda>r. if l_id r = lid then r\<lparr>l_groupId := Some gid\<rparr> else r) rows)
     = assigned gid (insert lid ids) rows"
  by (simp add: assigned_def)

lemma assigned_unmatched: "ids \<inter> l_id ` set rows = {} \<Longrightarrow> assigned gid ids rows = rows"
  unfolding assigned_def by (induction rows) auto

lemma assigned_groupId:
  "r \<in> set (assigned B ids rows) \<Longrightarrow> l_id r \<in> ids \<Longrightarrow> l_groupId r = Some B"
  by (auto simp: assigned_def split: if_splits)

lemma filter_assigned_one:
  "distinct (map l_id rows) \<Longrightarrow> l \<in> set rows \<Longrightarrow>
   filter (\<lambda>r. l_id r = l_id l) (assigned B {l_id l} rows) = [l\<lparr>l_groupId := Some B\<rparr>]"
proof (induction rows)
  case Nil
  then show ?case by simp
next
  case (Cons x rows)
  show ?case
  proof (cases "l_id x = l_id l")
    case True
    with Cons.prems have "x = l" and "l_id l \<notin> l_id ` set rows"
      by (auto simp: image_iff)
    then show ?thesis
      by (simp add: assigned_def filter_unmatched map_unmatched)
  next
    case False
    with Cons show ?thesis by (auto simp: assigned_def)
  qed
qed

lemma assignLogsToGroup_loop_ok:
  "db d = Some c \<Longrightarrow> live c \<Longrightarrow>
   assignLogsToGroup_loop d gid ids =
     (Inr (), d\<lparr>db := Some (c\<lparr>tables := (tables c)\<lparr>logs :=
                  assigned gid (set ids) (logs (tables c))\<rparr>\<rparr>)\<rparr>)"
proof (induction ids arbitrary: d c)
  case Nil
  then show ?case by simp
next
  case (Cons lid ids)
  let ?c = "c\<lparr>tables := (tables c)\<lparr>logs :=
         map (\<lambda>r. if l_id r = lid then r\<lparr>l_groupId := Some gid\<rparr> else r) (logs (tables c))\<rparr>\<rparr>"
  let ?d = "d\<lparr>db := Some ?c\<rparr>"
  have "assignLogsToGroup_loop ?d gid ids =
     (Inr (), ?d\<lparr>db := Some (?c\<lparr>tables := (tables ?c)\<lparr>logs :=
                  assigned gid (set ids) (logs (tables ?c))\<rparr>\<rparr>)\<rparr>)"
    using Cons.prems(2) by (intro Cons.IH) simp_all
  with Cons.prems show ?case
    by (simp add: run_update_log_group_id assigned_insert)
qed

lemma assignLogsToGroup_ok:
  assumes "db (sm_db m) = Some c" and "live c" and "journal c = None"
  shows "assignLogsToGroup m gid ids =
           (Inr (), m\<lparr>sm_db := (sm_db m)\<lparr>db := Some (c\<lparr>tables := (tables c)\<lparr>logs :=
                       assigned gid (set ids) (logs (tables c))\<rparr>\<rparr>)\<rparr>\<rparr>)"
proof -
  let ?c0 = "c\<lparr>journal := Some (tables c)\<rparr>"
  let ?d0 = "(sm_db m)\<lparr>db := Some ?c0\<rparr>"
  let ?c1 = "?c0\<lparr>tables := (tables ?c0)\<lparr>logs := assigned gid (set ids) (logs (tables ?c0))\<rparr>\<rparr>"
  let ?d1 = "?d0\<lparr>db := Some ?c1\<rparr>"
  have b: "run (sm_db m) sql_begin_transaction = (Inr 0, ?d0)"
    using assms by (simp add: run_begin_transaction)
  have l: "assignLogsToGroup_loop ?d0 gid ids = (Inr (), ?d1)"
    using assms by (intro assignLogsToGroup_loop_ok) simp_all
  have c: "run ?d1 sql_commit = (Inr 0, ?d1\<lparr>db := Some (?c1\<lparr>journal := None\<rparr>)\<rparr>)"
    using assms by (intro run_commit) simp_all
  have "?c1\<lparr>journal := None\<rparr> =
          c\<lparr>tables := (tables c)\<lparr>logs := assigned gid (set ids) (logs (tables c))\<rparr>\<rparr>"
    using assms(3) by (cases c) simp
  with b l c show ?thesis
    by (simp add: assignLogsToGroup_def)
qed

subsection \<open>The small store in normal form\<close>

lemma demo_m0_eq:
  "demo_m0 = \<lparr>sm_db = \<lparr>db = Some \<lparr>live = True, tables = empty_tables, journal = None\<rparr>\<rparr>,
              currentSession = None\<rparr>"
  by (simp add: demo_m0_def sm_initialize_def initialize_def new_StorageManager_def
      new_Database_def demo_env_def)

lemma demo_m1_eq:
  "demo_m1 = \<lparr>sm_db = \<lparr>db = Some \<lparr>live = True,
       tables = \<lparr>sessions = [demo_session], logs = [], log_groups = []\<rparr>, journal = None\<rparr>\<rparr>,
              currentSession = None\<rparr>"
  by (simp add: demo_m1_def demo_m0_eq createSession_def run_def sql_insert_session_def
      on_tables_def empty_tables_def demo_session_def Let_def)

lemma demo_m2_eq:
  "demo_m2 = \<lparr>sm_db = \<lparr>db = Some \<lparr>live = True,
       tables = \<lparr>sessions = [demo_session], logs = [demo_L1, demo_L2\<lparr>l_logLevel := None\<rparr>],
                 log_groups = []\<rparr>, journal = None\<rparr>\<rparr>,
              currentSession = None\<rparr>"
  by (simp add: demo_m2_def demo_m1_eq saveLogs_def run_def sql_begin_transaction_def
      sql_commit_def sql_insert_log_def on_tables_def log_row_def or_null_def
      demo_L1_def demo_L2_def)

lemma demo_m3_eq:
  "demo_m3 = \<lparr>sm_db = \<lparr>db = Some \<lparr>live = True,
       tables = \<lparr>sessions = [demo_session], logs = [demo_L1, demo_L2\<lparr>l_logLevel := None\<rparr>],
                 log_groups = [demo_GA, demo_GB]\<rparr>, journal = None\<rparr>\<rparr>,
              currentSession = None\<rparr>"
  by (simp add: demo_m3_def demo_m2_eq createLogGroup_def run_def sql_insert_log_group_def
      on_tables_def or_null_def demo_GA_def demo_GB_def Let_def)

lemma demo_m4_eq:
  "demo_m4 = \<lparr>sm_db = \<lparr>db = Some demo_conn\<rparr>, currentSession = None\<rparr>"
  by (simp add: demo_m4_def demo_m3_eq assignLogsToGroup_def run_def
      sql_begin_transaction_def sql_commit_def sql_update_log_group_id_def on_tables_def
      demo_conn_def demo_tables_def demo_L1_def demo_L2_def)

lemma demo_store_eq:
  "demo_store = \<lparr>sm_db = \<lparr>db = Some demo_conn\<rparr>, currentSession = Some demo_session\<rparr>"
  by (simp add: demo_store_def demo_m4_eq setCurrentSession_def getSession_def get_def
      sql_select_session_def find_first_def demo_conn_def demo_tables_def demo_session_def)




lemma demo_open: "db (sm_db demo_store) = Some demo_conn"
  by (simp add: demo_store_eq)

lemma demo_live: "live demo_conn"
  by (simp add: demo_conn_def)

lemma demo_no_transaction: "journal demo_conn = None"
  by (simp add: demo_conn_def)

lemma demo_primary_keys: "primary_keys (tables demo_conn)"
  by (simp add: primary_keys_def demo_conn_def demo_tables_def demo_L1_def demo_L2_def
      demo_GA_def demo_GB_def)

section \<open>What every call preserves\<close>

text \<open>
  On an initialized store every method leaves the connection open and usable, leaves
  no transaction behind, and keeps the identifiers of each table distinct.  The
  hypotheses of the claims below therefore hold between any two calls made one after
  the other.
\<close>

lemma store_okI:
  "db (sm_db m) = Some c \<Longrightarrow> live c \<Longrightarrow> journal c = None \<Longrightarrow> primary_keys (tables c)
   \<Longrightarrow> store_ok m"
  by (simp add: store_ok_def)

lemma store_okE:
  assumes "store_ok m"
  obtains c where "db (sm_db m) = Some c" and "live c" and "journal c = None"
    and "primary_keys (tables c)"
  using assms by (auto simp: store_ok_def split: option.splits)

lemma store_ok_initialize:
  assumes "sm_initialize m env = (Inr u, m')"
    and "\<And>t. open_result env = Inr t \<Longrightarrow> primary_keys t"
  shows "store_ok m'"
  using assms
  by (auto simp: sm_initialize_def initialize_def store_ok_def
      split: option.splits sum.splits prod.splits)

lemma store_ok_setCurrentSession:
  "store_ok m \<Longrightarrow> store_ok (snd (setCurrentSession m i))"
  by (auto simp: setCurrentSession_def store_ok_def split: sum.splits option.splits)

lemma store_ok_createSession:
  assumes "store_ok m"
  shows "store_ok (snd (createSession m name provider st en now uuid))"
proof -
  from assms obtain c where c: "db (sm_db m) = Some c" "live c" "journal c = None"
    "primary_keys (tables c)"
    by (rule store_okE)
  then show ?thesis
    by (auto simp: createSession_def Let_def run_live sql_insert_session_def on_tables_def
        store_ok_def primary_keys_def)
qed

lemma store_ok_createLogGroup:
  assumes "store_ok m"
  shows "store_ok (snd (createLogGroup m sid name descr uuid))"
proof -
  from assms obtain c where c: "db (sm_db m) = Some c" "live c" "journal c = None"
    "primary_keys (tables c)"
    by (rule store_okE)
  then show ?thesis
    by (auto simp: createLogGroup_def Let_def run_live sql_insert_log_group_def on_tables_def
        store_ok_def primary_keys_def)
qed

lemma map_key_update:
  "(\<And>r. f (g r) = f r) \<Longrightarrow> map f (map (\<lambda>r. if P r then g r else r) xs) = map f xs"
  by (induction xs) auto

lemma distinct_key_update:
  "(\<And>r. f (g r) = f r) \<Longrightarrow>
   distinct (map (f \<circ> (\<lambda>r. if P r then g r else r)) xs) = distinct (map f xs)"
proof -
  assume "\<And>r. f (g r) = f r"
  then have "f \<circ> (\<lambda>r. if P r then g r else r) = f"
    by (auto simp: fun_eq_iff)
  then show ?thesis by simp
qed

lemma store_ok_updateSession:
  assumes "store_ok m"
  shows "store_ok (snd (snd (updateSession m session now)))"
proof -
  from assms obtain c where c: "db (sm_db m) = Some c" "live c" "journal c = None"
    "primary_keys (tables c)"
    by (rule store_okE)
  then show ?thesis
    by (simp add: updateSession_def Let_def run_update_session store_ok_def primary_keys_def
        distinct_key_update)
qed

lemma store_ok_updateLogGroup:
  assumes "store_ok m"
  shows "store_ok (snd (updateLogGroup m logGroup))"
proof -
  from assms obtain c where c: "db (sm_db m) = Some c" "live c" "journal c = None"
    "primary_keys (tables c)"
    by (rule store_okE)
  then show ?thesis
    by (simp add: updateLogGroup_def run_update_log_group store_ok_def primary_keys_def
        distinct_key_update)
qed

lemma store_ok_deleteSession:
  assumes "store_ok m"
  shows "store_ok (snd (deleteSession m i))"
proof -
  from assms obtain c where c: "db (sm_db m) = Some c" "live c" "journal c = None"
    "primary_keys (tables c)"
    by (rule store_okE)
  then show ?thesis
    by (simp add: deleteSession_unfold run_delete_logs run_delete_log_groups
        run_delete_session store_ok_def primary_keys_def distinct_map_filter)
qed

lemma store_ok_saveLogs:
  assumes "store_ok m"
  shows "store_ok (snd (saveLogs m batch))"
proof -
  from assms obtain c where c: "db (sm_db m) = Some c" "live c" "journal c = None"
    "primary_keys (tables c)"
    by (rule store_okE)
  show ?thesis
  proof (cases "no_conflict (logs (tables c)) batch")
    case True
    then have "distinct (map l_id (logs (tables c) @ map log_row batch))"
      using c(4) by (auto simp: no_conflict_def primary_keys_def comp_def)
    with c True show ?thesis
      by (simp add: saveLogs_ok store_ok_def primary_keys_def)
  next
    case False
    with c assms show ?thesis
      by (simp add: saveLogs_fails)
  qed
qed

lemma store_ok_assignLogsToGroup:
  assumes "store_ok m"
  shows "store_ok (snd (assignLogsToGroup m gid ids))"
proof -
  from assms obtain c where c: "db (sm_db m) = Some c" "live c" "journal c = None"
    "primary_keys (tables c)"
    by (rule store_okE)
  have "map l_id (assigned gid (set ids) (logs (tables c))) = map l_id (logs (tables c))"
    unfolding assigned_def by (rule map_key_update) simp
  with c show ?thesis
    by (simp add: assignLogsToGroup_ok store_ok_def primary_keys_def)
qed

lemma demo_store_ok: "store_ok demo_store"
  using demo_open demo_live demo_no_transaction demo_primary_keys by (rule store_okI)

section \<open>The claims\<close>

text \<open>
  The statements below are about a store whose connection is open and usable
  (\<open>db (sm_db m) = Some c\<close>, \<open>live c\<close>).  Where a method begins a transaction the
  statement also asks that none is open already (\<open>journal c = None\<close>); every method
  that begins one ends it, so this holds between any two calls made one after the other.
\<close>

text \<open>
  C1.  \<open>saveLogs\<close> is all-or-nothing.  After \<open>BEGIN TRANSACTION\<close> the loop inserts the
  rows one by one.  If an insert is rejected with error \<open>e\<close>, \<open>saveLogs\<close> rejects with
  that same \<open>e\<close> and the store is exactly the store before the call, so no row of the
  batch can be read.  If no insert is rejected, \<open>saveLogs\<close> succeeds, the table \<open>logs\<close>
  is the old one followed by the rows of the batch, and every row of the batch is
  returned by \<open>getSessionLogs\<close> for its session.  An insert is rejected exactly when its
  identifier is already stored or occurs earlier in the batch.
\<close>

theorem saveLogs_all_or_nothing:
  assumes "db (sm_db m) = Some c" and "live c" and "journal c = None"
  shows "\<exists>d0. run (sm_db m) sql_begin_transaction = (Inr 0, d0)
         \<and> (fst (saveLogs_loop d0 batch) = Inr () \<longleftrightarrow> no_conflict (logs (tables c)) batch)
         \<and> (case saveLogs_loop d0 batch of
               (Inl e, d1) \<Rightarrow>
                 saveLogs m batch = (Inl e, m)
             | (Inr u, d1) \<Rightarrow>
                 (\<exists>m' c'. saveLogs m batch = (Inr (), m')
                    \<and> db (sm_db m') = Some c' \<and> live c' \<and> journal c' = None
                    \<and> tables c' = (tables c)\<lparr>logs := logs (tables c) @ map log_row batch\<rparr>
                    \<and> (\<forall>l \<in> set batch. \<exists>rows.
                          getSessionLogs m' (l_sessionId l) = Inr rows \<and> log_row l \<in> set rows)))"
proof -
  let ?c0 = "c\<lparr>journal := Some (tables c)\<rparr>"
  let ?d0 = "(sm_db m)\<lparr>db := Some ?c0\<rparr>"
  have b: "run (sm_db m) sql_begin_transaction = (Inr 0, ?d0)"
    using assms by (simp add: run_begin_transaction)
  have open0: "db ?d0 = Some ?c0" "live ?c0" "logs (tables ?c0) = logs (tables c)"
    using assms by simp_all
  show ?thesis
  proof (cases "no_conflict (logs (tables c)) batch")
    case True
    have l: "saveLogs_loop ?d0 batch =
        (Inr (), ?d0\<lparr>db := Some (?c0\<lparr>tables := (tables ?c0)\<lparr>logs :=
                    logs (tables ?c0) @ map log_row batch\<rparr>\<rparr>)\<rparr>)"
      using open0 True by (intro saveLogs_loop_ok) simp_all
    have s: "saveLogs m batch =
           (Inr (), m\<lparr>sm_db := (sm_db m)\<lparr>db := Some (c\<lparr>tables := (tables c)\<lparr>logs :=
                       logs (tables c) @ map log_row batch\<rparr>\<rparr>)\<rparr>\<rparr>)"
      using assms True by (rule saveLogs_ok)
    show ?thesis
      using b l s True assms
      by (auto simp: getSessionLogs_def all_live sql_select_session_logs_def)
  next
    case False
    obtain t' where l: "saveLogs_loop ?d0 batch =
        (Inl (Sqlite (UNIQUE_constraint_failed ''logs.id'')),
         ?d0\<lparr>db := Some (?c0\<lparr>tables := t'\<rparr>)\<rparr>)"
      using saveLogs_loop_fails [of ?d0 ?c0 batch] open0 False by auto
    have s: "saveLogs m batch = (Inl (Sqlite (UNIQUE_constraint_failed ''logs.id'')), m)"
      using assms False by (rule saveLogs_fails)
    show ?thesis
      using b l s False by auto
  qed
qed

text \<open>On the small store: a batch whose second row repeats the stored identifier \<open>L1\<close>
  is rejected and leaves the store as it was; a batch with the new identifier \<open>L3\<close>
  is stored.\<close>

theorem saveLogs_all_or_nothing_witness:
  "db (sm_db demo_store) = Some demo_conn \<and> live demo_conn \<and> journal demo_conn = None
   \<and> (\<exists>e. saveLogs demo_store [demo_L3, demo_L1] = (Inl e, demo_store))
   \<and> (\<exists>m' rows. saveLogs demo_store [demo_L3] = (Inr (), m')
         \<and> getSessionLogs m' ''S1'' = Inr rows \<and> demo_L3 \<in> set rows)"
proof -
  note h = demo_open demo_live demo_no_transaction
  have bad: "\<not> no_conflict (logs (tables demo_conn)) [demo_L3, demo_L1]"
    by (simp add: no_conflict_def demo_conn_def demo_tables_def demo_L1_def demo_L3_def)
  have good: "no_conflict (logs (tables demo_conn)) [demo_L3]"
    by (simp add: no_conflict_def demo_conn_def demo_tables_def demo_L1_def demo_L2_def
        demo_L3_def)
  have row: "log_row demo_L3 = demo_L3" "l_sessionId demo_L3 = ''S1''"
    by (simp_all add: log_row_def or_null_def demo_L3_def)
  from saveLogs_all_or_nothing [OF h, of "[demo_L3, demo_L1]"] bad
  have rejected: "\<exists>e. saveLogs demo_store [demo_L3, demo_L1] = (Inl e, demo_store)"
    by (auto split: prod.splits sum.splits)
  from saveLogs_all_or_nothing [OF h, of "[demo_L3]"] good
  have stored: "\<exists>m' rows. saveLogs demo_store [demo_L3] = (Inr (), m')
         \<and> getSessionLogs m' ''S1'' = Inr rows \<and> demo_L3 \<in> set rows"
    by (auto simp: row split: prod.splits sum.splits)
  from h rejected stored show ?thesis by blast
qed



text \<open>
  C3 (amended).  For a stored session, \<open>updateSession\<close> overwrites name, cloud provider,
  start time, end time and status of the row with the given identifier, and writes the
  clock reading \<open>now\<close> as \<open>updatedAt\<close> whatever the caller supplied; identifier and
  \<open>createdAt\<close> of the row stay, and so does every other row.  The returned and the
  retrieved \<open>updatedAt\<close> both equal \<open>now\<close>, so they are strictly greater than the
  previous value exactly when the clock reading is.
\<close>

theorem updateSession_refreshes_updatedAt:
  assumes "db (sm_db m) = Some c" and "live c"
    and "distinct (map s_id (sessions (tables c)))"
    and "s0 \<in> set (sessions (tables c))"
    and "s_id session = s_id s0"
  shows "\<exists>m' s'. updateSession m session now
                    = (Inr (session\<lparr>s_updatedAt := now\<rparr>), session\<lparr>s_updatedAt := now\<rparr>, m')
           \<and> getSession m' (s_id s0) = Inr (Some s')
           \<and> s' = s0\<lparr>s_name := s_name session, s_updatedAt := now,
                      s_cloudProvider := s_cloudProvider session,
                      s_startTime := s_startTime session, s_endTime := s_endTime session,
                      s_status := s_status session\<rparr>
           \<and> s_updatedAt s' = now
           \<and> (s_updatedAt s0 < s_updatedAt s') = (s_updatedAt s0 < now)
           \<and> (\<forall>i. i \<noteq> s_id s0 \<longrightarrow> getSession m' i = getSession m i)"
proof -
  let ?g = "\<lambda>r. r\<lparr>s_name := s_name session, s_updatedAt := now,
                      s_cloudProvider := s_cloudProvider session,
                      s_startTime := s_startTime session, s_endTime := s_endTime session,
                      s_status := s_status session\<rparr>"
  let ?rows = "map (\<lambda>r. if s_id r = s_id s0 then ?g r else r) (sessions (tables c))"
  have this_row: "find_first (\<lambda>r. s_id r = s_id s0) ?rows = Some (?g s0)"
    using assms(3,4) by (intro find_first_map_update) simp_all
  have other_rows: "find_first (\<lambda>r. s_id r = i) ?rows
                      = find_first (\<lambda>r. s_id r = i) (sessions (tables c))"
    if "i \<noteq> s_id s0" for i
    using that by (intro find_first_map_other) simp_all
  from assms this_row other_rows show ?thesis
    by (simp add: updateSession_def run_update_session Let_def getSession_def get_live
        sql_select_session_def cong: if_cong)
qed

theorem updateSession_refreshes_updatedAt_witness:
  "db (sm_db demo_store) = Some demo_conn \<and> live demo_conn
   \<and> distinct (map s_id (sessions (tables demo_conn)))
   \<and> demo_session \<in> set (sessions (tables demo_conn))
   \<and> s_id demo_stale = s_id demo_session
   \<and> s_updatedAt demo_session = 1000 \<and> s_updatedAt demo_stale = 5
   \<and> (\<exists>m'. updateSession demo_store demo_stale 2000
             = (Inr (demo_session\<lparr>s_name := ''Renamed'', s_updatedAt := 2000\<rparr>),
                demo_session\<lparr>s_name := ''Renamed'', s_updatedAt := 2000\<rparr>, m')
         \<and> getSession m' ''S1''
             = Inr (Some (demo_session\<lparr>s_name := ''Renamed'', s_updatedAt := 2000\<rparr>))
         \<and> getSession m' ''nope'' = getSession demo_store ''nope'')"
proof -
  have h3: "distinct (map s_id (sessions (tables demo_conn)))"
    and h4: "demo_session \<in> set (sessions (tables demo_conn))"
    by (simp_all add: demo_conn_def demo_tables_def)
  have h5: "s_id demo_stale = s_id demo_session"
    and v: "s_updatedAt demo_session = 1000" "s_updatedAt demo_stale = 5"
    by (simp_all add: demo_stale_def demo_session_def)
  have k: "s_id demo_session = ''S1''" "''nope'' \<noteq> s_id demo_session"
    "demo_stale\<lparr>s_updatedAt := 2000\<rparr> = demo_session\<lparr>s_name := ''Renamed'', s_updatedAt := 2000\<rparr>"
    "demo_session\<lparr>s_name := s_name demo_stale, s_updatedAt := 2000,
        s_cloudProvider := s_cloudProvider demo_stale, s_startTime := s_startTime demo_stale,
        s_endTime := s_endTime demo_stale, s_status := s_status demo_stale\<rparr>
      = demo_session\<lparr>s_name := ''Renamed'', s_updatedAt := 2000\<rparr>"
    by (simp_all add: demo_stale_def demo_session_def)
  from updateSession_refreshes_updatedAt [OF demo_open demo_live h3 h4 h5, of 2000]
  obtain m' s' where r: "updateSession demo_store demo_stale 2000
                    = (Inr (demo_stale\<lparr>s_updatedAt := 2000\<rparr>), demo_stale\<lparr>s_updatedAt := 2000\<rparr>, m')"
    "getSession m' (s_id demo_session) = Inr (Some s')"
    "s' = demo_session\<lparr>s_name := s_name demo_stale, s_updatedAt := 2000,
        s_cloudProvider := s_cloudProvider demo_stale, s_startTime := s_startTime demo_stale,
        s_endTime := s_endTime demo_stale, s_status := s_status demo_stale\<rparr>"
    "\<forall>i. i \<noteq> s_id demo_session \<longrightarrow> getSession m' i = getSession demo_store i"
    by blast
  from r(4) k(2) have other: "getSession m' ''nope'' = getSession demo_store ''nope''"
    by blast
  have "updateSession demo_store demo_stale 2000
             = (Inr (demo_session\<lparr>s_name := ''Renamed'', s_updatedAt := 2000\<rparr>),
                demo_session\<lparr>s_name := ''Renamed'', s_updatedAt := 2000\<rparr>, m')
         \<and> getSession m' ''S1''
             = Inr (Some (demo_session\<lparr>s_name := ''Renamed'', s_updatedAt := 2000\<rparr>))
         \<and> getSession m' ''nope'' = getSession demo_store ''nope''"
    using r(1,2) other unfolding r(3) k by (intro conjI)
  then have updated: "\<exists>m'. updateSession demo_store demo_stale 2000
             = (Inr (demo_session\<lparr>s_name := ''Renamed'', s_updatedAt := 2000\<rparr>),
                demo_session\<lparr>s_name := ''Renamed'', s_updatedAt := 2000\<rparr>, m')
         \<and> getSession m' ''S1''
             = Inr (Some (demo_session\<lparr>s_name := ''Renamed'', s_updatedAt := 2000\<rparr>))
         \<and> getSession m' ''nope'' = getSession demo_store ''nope''"
    by (intro exI)
  show ?thesis
    by (intro conjI demo_open demo_live h3 h4 h5 v updated)
qed

text \<open>
  The claim as written fails when the update falls into the millisecond of the previous
  write.  \<open>demo_m1\<close> is the store right after the session was created at time 1000;
  \<open>demo_stale\<close> is the caller's copy, renamed and carrying the stale \<open>updatedAt = 5\<close>.
  Updated at time 1000, the returned and the retrieved record have \<open>updatedAt = 1000\<close>,
  which is not greater than the value before the update.
\<close>

theorem updateSession_strictly_greater_counterexample:
  "getSession demo_m1 ''S1'' = Inr (Some demo_session)
   \<and> s_updatedAt demo_session = 1000
   \<and> s_updatedAt demo_stale = 5
   \<and> fst (updateSession demo_m1 demo_stale 1000)
       = Inr (demo_session\<lparr>s_name := ''Renamed''\<rparr>)
   \<and> getSession (snd (snd (updateSession demo_m1 demo_stale 1000))) ''S1''
       = Inr (Some (demo_session\<lparr>s_name := ''Renamed''\<rparr>))
   \<and> s_updatedAt (demo_session\<lparr>s_name := ''Renamed''\<rparr>) = 1000
   \<and> \<not> (s_updatedAt demo_session < s_updatedAt (demo_session\<lparr>s_name := ''Renamed''\<rparr>))"
  by (simp add: demo_m1_eq updateSession_def getSession_def get_def run_def
      sql_update_session_def sql_select_session_def on_tables_def find_first_def Let_def
      demo_session_def demo_stale_def)




text \<open>
  C5.  A log row has one \<open>group_id\<close> column, and \<open>assignLogsToGroup\<close> overwrites it.
  For a stored log that \<open>getGroupLogs A\<close> returns, after \<open>assignLogsToGroup B\<close> on its
  identifier (\<open>B\<close> another group than \<open>A\<close>) the log is no longer among
  \<open>getGroupLogs A\<close>, nor in the result for any group other than \<open>B\<close>, and
  \<open>getGroupLogs B\<close> contains exactly one row with its identifier: the log with its
  group set to \<open>B\<close>.
\<close>

theorem reassignment_moves_log:
  assumes "db (sm_db m) = Some c" and "live c" and "journal c = None"
    and "distinct (map l_id (logs (tables c)))"
    and "l \<in> set (logs (tables c))"
    and "l_groupId l = Some A"
    and "A \<noteq> B"
  shows "\<exists>rows0 m' rowsA rowsB.
           getGroupLogs m A = Inr rows0 \<and> l \<in> set rows0
         \<and> assignLogsToGroup m B [l_id l] = (Inr (), m')
         \<and> getGroupLogs m' A = Inr rowsA \<and> l_id l \<notin> l_id ` set rowsA
         \<and> getGroupLogs m' B = Inr rowsB
         \<and> filter (\<lambda>r. l_id r = l_id l) rowsB = [l\<lparr>l_groupId := Some B\<rparr>]
         \<and> (\<forall>G rows. G \<noteq> B \<longrightarrow> getGroupLogs m' G = Inr rows \<longrightarrow> l_id l \<notin> l_id ` set rows)"
proof -
  let ?rows = "assigned B {l_id l} (logs (tables c))"
  let ?c' = "c\<lparr>tables := (tables c)\<lparr>logs := ?rows\<rparr>\<rparr>"
  let ?m' = "m\<lparr>sm_db := (sm_db m)\<lparr>db := Some ?c'\<rparr>\<rparr>"
  have before: "getGroupLogs m A = Inr (sql_select_group_logs A (tables c))"
    using assms(1,2) by (simp add: getGroupLogs_def all_live)
  have member: "l \<in> set (sql_select_group_logs A (tables c))"
    using assms(5,6) by (simp add: sql_select_group_logs_def)
  have call: "assignLogsToGroup m B [l_id l] = (Inr (), ?m')"
    using assms(1-3) by (simp add: assignLogsToGroup_ok)
  have after: "getGroupLogs ?m' G = Inr (sql_select_group_logs G (tables ?c'))" for G
    using assms(2) by (simp add: getGroupLogs_def all_live)
  have others: "l_id l \<notin> l_id ` set (sql_select_group_logs G (tables ?c'))" if "G \<noteq> B" for G
    using that by (auto simp: sql_select_group_logs_def dest: assigned_groupId)
  have "filter (\<lambda>r. l_id r = l_id l) (sql_select_group_logs B (tables ?c'))
          = sort_key l_timestamp (filter (\<lambda>r. l_groupId r = Some B)
              (filter (\<lambda>r. l_id r = l_id l) ?rows))"
    by (simp add: sql_select_group_logs_def filter_sort conj_commute)
  also have "\<dots> = [l\<lparr>l_groupId := Some B\<rparr>]"
    using assms(4,5) by (simp add: filter_assigned_one)
  finally have once: "filter (\<lambda>r. l_id r = l_id l) (sql_select_group_logs B (tables ?c'))
          = [l\<lparr>l_groupId := Some B\<rparr>]" .
  show ?thesis
    using before member call after others [OF assms(7)] once others
    by (intro exI conjI) (assumption | rule refl | auto)+
qed

text \<open>On the small store \<open>L1\<close> is in group \<open>GA\<close> and is moved to \<open>GB\<close>.\<close>

theorem reassignment_moves_log_witness:
  "db (sm_db demo_store) = Some demo_conn \<and> live demo_conn \<and> journal demo_conn = None
   \<and> distinct (map l_id (logs (tables demo_conn)))
   \<and> demo_L1\<lparr>l_groupId := Some ''GA''\<rparr> \<in> set (logs (tables demo_conn))
   \<and> ''GA'' \<noteq> ''GB''
   \<and> (\<exists>m' rowsA rowsB.
         assignLogsToGroup demo_store ''GB'' [''L1''] = (Inr (), m')
       \<and> getGroupLogs m' ''GA'' = Inr rowsA \<and> ''L1'' \<notin> l_id ` set rowsA
       \<and> getGroupLogs m' ''GB'' = Inr rowsB
       \<and> filter (\<lambda>r. l_id r = ''L1'') rowsB = [demo_L1\<lparr>l_groupId := Some ''GB''\<rparr>])"
proof -
  let ?l = "demo_L1\<lparr>l_groupId := Some ''GA''\<rparr>"
  have h4: "distinct (map l_id (logs (tables demo_conn)))"
    and h5: "?l \<in> set (logs (tables demo_conn))"
    by (simp_all add: demo_conn_def demo_tables_def demo_L1_def demo_L2_def)
  have h6: "l_groupId ?l = Some ''GA''" and h7: "''GA'' \<noteq> ''GB''"
    by simp_all
  have k: "l_id ?l = ''L1''" "?l\<lparr>l_groupId := Some ''GB''\<rparr> = demo_L1\<lparr>l_groupId := Some ''GB''\<rparr>"
    by (simp_all add: demo_L1_def)
  from reassignment_moves_log [OF demo_open demo_live demo_no_transaction h4 h5 h6 h7]
  obtain m' rowsA rowsB where
    r: "assignLogsToGroup demo_store ''GB'' [l_id ?l] = (Inr (), m')"
      "getGroupLogs m' ''GA'' = Inr rowsA" "l_id ?l \<notin> l_id ` set rowsA"
      "getGroupLogs m' ''GB'' = Inr rowsB"
      "filter (\<lambda>r. l_id r = l_id ?l) rowsB = [?l\<lparr>l_groupId := Some ''GB''\<rparr>]"
    by blast
  have "assignLogsToGroup demo_store ''GB'' [''L1''] = (Inr (), m')
       \<and> getGroupLogs m' ''GA'' = Inr rowsA \<and> ''L1'' \<notin> l_id ` set rowsA
       \<and> getGroupLogs m' ''GB'' = Inr rowsB
       \<and> filter (\<lambda>r. l_id r = ''L1'') rowsB = [demo_L1\<lparr>l_groupId := Some ''GB''\<rparr>]"
    using r unfolding k by (intro conjI)
  then have moved: "\<exists>m' rowsA rowsB.
         assignLogsToGroup demo_store ''GB'' [''L1''] = (Inr (), m')
       \<and> getGroupLogs m' ''GA'' = Inr rowsA \<and> ''L1'' \<notin> l_id ` set rowsA
       \<and> getGroupLogs m' ''GB'' = Inr rowsB
       \<and> filter (\<lambda>r. l_id r = ''L1'') rowsB = [demo_L1\<lparr>l_groupId := Some ''GB''\<rparr>]"
    by (intro exI)
  show ?thesis
    by (intro conjI demo_open demo_live demo_no_transaction h4 h5 h7 moved)
qed

text \<open>
  C6.  \<open>setCurrentSession\<close> looks the identifier up in the table \<open>sessions\<close>.  For the
  identifier of a stored session it returns that session and makes it the current one.
  For an identifier that is not stored it returns \<open>null\<close> and the object is unchanged,
  so \<open>getCurrentSession\<close> still returns what it returned before.  \<open>getCurrentSession\<close>
  reads only the pointer: its result does not depend on the database.
\<close>

theorem setCurrentSession_found_or_unchanged:
  assumes "db (sm_db m) = Some c" and "live c"
    and "distinct (map s_id (sessions (tables c)))"
    and "s \<in> set (sessions (tables c))"
    and "unknownId \<notin> s_id ` set (sessions (tables c))"
  shows "setCurrentSession m (s_id s) = (Inr (Some s), m\<lparr>currentSession := Some s\<rparr>)
       \<and> getCurrentSession (snd (setCurrentSession m (s_id s))) = Some s
       \<and> setCurrentSession m unknownId = (Inr None, m)
       \<and> getCurrentSession (snd (setCurrentSession m unknownId)) = getCurrentSession m
       \<and> (\<forall>d. getCurrentSession (m\<lparr>sm_db := d\<rparr>) = getCurrentSession m)"
proof -
  have found: "getSession m (s_id s) = Inr (Some s)"
    using assms by (simp add: getSession_def get_live sql_select_session_def find_first_distinct)
  have missing: "getSession m unknownId = Inr None"
    using assms by (simp add: getSession_def get_live sql_select_session_def find_first_None)
  show ?thesis
    by (simp add: setCurrentSession_def found missing getCurrentSession_def)
qed

text \<open>On the small store the current session is \<open>S1\<close>; switching to an unknown
  identifier returns \<open>null\<close> and \<open>S1\<close> stays current.\<close>

theorem setCurrentSession_found_or_unchanged_witness:
  "db (sm_db demo_store) = Some demo_conn \<and> live demo_conn
   \<and> distinct (map s_id (sessions (tables demo_conn)))
   \<and> demo_session \<in> set (sessions (tables demo_conn))
   \<and> ''nope'' \<notin> s_id ` set (sessions (tables demo_conn))
   \<and> getCurrentSession demo_store = Some demo_session
   \<and> setCurrentSession demo_store ''nope'' = (Inr None, demo_store)
   \<and> getCurrentSession (snd (setCurrentSession demo_store ''nope'')) = Some demo_session
   \<and> fst (setCurrentSession demo_m4 ''S1'') = Inr (Some demo_session)
   \<and> getCurrentSession (snd (setCurrentSession demo_m4 ''S1'')) = Some demo_session"
proof -
  have h3: "distinct (map s_id (sessions (tables demo_conn)))"
    and h4: "demo_session \<in> set (sessions (tables demo_conn))"
    and h5: "''nope'' \<notin> s_id ` set (sessions (tables demo_conn))"
    by (simp_all add: demo_conn_def demo_tables_def demo_session_def)
  have cur: "getCurrentSession demo_store = Some demo_session"
    by (simp add: getCurrentSession_def demo_store_eq)
  have open4: "db (sm_db demo_m4) = Some demo_conn"
    by (simp add: demo_m4_eq)
  have id: "s_id demo_session = ''S1''"
    by (simp add: demo_session_def)
  from setCurrentSession_found_or_unchanged [OF demo_open demo_live h3 h4 h5] cur
  have a: "setCurrentSession demo_store ''nope'' = (Inr None, demo_store)
      \<and> getCurrentSession (snd (setCurrentSession demo_store ''nope'')) = Some demo_session"
    by simp
  from setCurrentSession_found_or_unchanged [OF open4 demo_live h3 h4 h5]
  have b: "fst (setCurrentSession demo_m4 ''S1'') = Inr (Some demo_session)
      \<and> getCurrentSession (snd (setCurrentSession demo_m4 ''S1'')) = Some demo_session"
    by (simp add: id getCurrentSession_def)
  show ?thesis
    using a b cur by (intro conjI demo_open demo_live h3 h4 h5) simp_all
qed

text \<open>
  C7.  \<open>getAllSessions\<close> returns all stored sessions with \<open>updatedAt\<close> descending,
  \<open>getSessionLogs\<close> the logs of the session with \<open>timestamp\<close> ascending, and
  \<open>getSessionLogGroups\<close> the groups of the session with \<open>name\<close> ascending (bytewise
  lexicographic order).  Each result holds exactly the matching rows.
\<close>

theorem queries_are_ordered:
  assumes "db (sm_db m) = Some c" and "live c"
  shows "\<exists>ss ls gs.
           getAllSessions m = Inr ss
         \<and> sorted_wrt (\<lambda>a b. s_updatedAt a \<ge> s_updatedAt b) ss
         \<and> mset ss = mset (sessions (tables c))
         \<and> getSessionLogs m sessionId = Inr ls
         \<and> sorted (map l_timestamp ls)
         \<and> mset ls = mset (filter (\<lambda>r. l_sessionId r = sessionId) (logs (tables c)))
         \<and> getSessionLogGroups m sessionId = Inr gs
         \<and> sorted (map g_name gs)
         \<and> mset gs = mset (filter (\<lambda>r. g_sessionId r = sessionId) (log_groups (tables c)))"
proof -
  have "sorted (map (\<lambda>r. - s_updatedAt r)
                  (sort_key (\<lambda>r. - s_updatedAt r) (sessions (tables c))))"
    by (rule sorted_sort_key)
  then have desc: "sorted_wrt (\<lambda>a b. s_updatedAt a \<ge> s_updatedAt b)
                     (sort_key (\<lambda>r. - s_updatedAt r) (sessions (tables c)))"
    by (simp add: sorted_map)
  show ?thesis
    using assms desc
    by (simp add: getAllSessions_def getSessionLogs_def getSessionLogGroups_def all_live
        sql_select_all_sessions_def sql_select_session_logs_def
        sql_select_session_log_groups_def)
qed

text \<open>On the small store the logs were saved as \<open>L1\<close> (time 20), \<open>L2\<close> (time 10) and
  are read as \<open>L2\<close>, \<open>L1\<close>; the groups were created as ``Service A errors'', ``Other''
  and are read as ``Other'', ``Service A errors''.\<close>

theorem queries_are_ordered_witness:
  "db (sm_db demo_store) = Some demo_conn \<and> live demo_conn
   \<and> (\<exists>ss ls gs.
         getAllSessions demo_store = Inr ss
       \<and> sorted_wrt (\<lambda>a b. s_updatedAt a \<ge> s_updatedAt b) ss
       \<and> getSessionLogs demo_store ''S1'' = Inr ls
       \<and> sorted (map l_timestamp ls)
       \<and> getSessionLogGroups demo_store ''S1'' = Inr gs
       \<and> sorted (map g_name gs))
   \<and> getSessionLogs demo_store ''S1''
        = Inr [demo_L2\<lparr>l_logLevel := None\<rparr>, demo_L1\<lparr>l_groupId := Some ''GA''\<rparr>]
   \<and> getSessionLogGroups demo_store ''S1'' = Inr [demo_GB, demo_GA]"
proof -
  note h = demo_open demo_live
  from queries_are_ordered [OF h, of "''S1''"]
  have a: "\<exists>ss ls gs.
         getAllSessions demo_store = Inr ss
       \<and> sorted_wrt (\<lambda>a b. s_updatedAt a \<ge> s_updatedAt b) ss
       \<and> getSessionLogs demo_store ''S1'' = Inr ls
       \<and> sorted (map l_timestamp ls)
       \<and> getSessionLogGroups demo_store ''S1'' = Inr gs
       \<and> sorted (map g_name gs)"
    by blast
  have b: "getSessionLogs demo_store ''S1''
        = Inr [demo_L2\<lparr>l_logLevel := None\<rparr>, demo_L1\<lparr>l_groupId := Some ''GA''\<rparr>]"
    by (simp add: getSessionLogs_def all_live [OF h] sql_select_session_logs_def
        demo_conn_def demo_tables_def demo_L1_def demo_L2_def)
  have "''Other'' < ''Service A errors''"
    by (simp add: less_char_def)
  then have c: "getSessionLogGroups demo_store ''S1'' = Inr [demo_GB, demo_GA]"
    by (simp add: getSessionLogGroups_def all_live [OF h] sql_select_session_log_groups_def
        demo_conn_def demo_tables_def demo_GA_def demo_GB_def less_le)
  from h a b c show ?thesis by blast
qed

text \<open>
  C8.  On an object on which \<open>initialize\<close> has never run, and on one on which \<open>close\<close>
  has succeeded, \<open>run\<close>, \<open>get\<close> and \<open>all\<close> reject with ``Database not initialized''
  and so does every method of the storage manager that reaches the database; the
  object is left as it is (nothing is reopened).
\<close>

theorem closed_store_fails_not_initialized:
  assumes "m = new_StorageManager \<or> (\<exists>m0 err. sm_close m0 err = (Inr (), m))"
  shows "(\<forall>sql. run (sm_db m) sql = (Inl Database_not_initialized, sm_db m))
       \<and> get (sm_db m) q1 = Inl Database_not_initialized
       \<and> all (sm_db m) q2 = Inl Database_not_initialized
       \<and> createSession m name provider startTime endTime now uuid
            = (Inl Database_not_initialized, m)
       \<and> getSession m i = Inl Database_not_initialized
       \<and> getAllSessions m = Inl Database_not_initialized
       \<and> setCurrentSession m i = (Inl Database_not_initialized, m)
       \<and> updateSession m session now
            = (Inl Database_not_initialized, session\<lparr>s_updatedAt := now\<rparr>, m)
       \<and> deleteSession m i = (Inl Database_not_initialized, m)
       \<and> saveLogs m batch = (Inl Database_not_initialized, m)
       \<and> getSessionLogs m i = Inl Database_not_initialized
       \<and> createLogGroup m i name description uuid = (Inl Database_not_initialized, m)
       \<and> getLogGroup m i = Inl Database_not_initialized
       \<and> getSessionLogGroups m i = Inl Database_not_initialized
       \<and> updateLogGroup m logGroup = (Inl Database_not_initialized, m)
       \<and> assignLogsToGroup m groupId logIds = (Inl Database_not_initialized, m)
       \<and> getGroupLogs m groupId = Inl Database_not_initialized"
proof -
  from assms have closed: "db (sm_db m) = None"
    by (auto simp: new_StorageManager_def new_Database_def dest: sm_close_ok_db)
  note r = run_not_initialized [OF closed] get_not_initialized [OF closed]
    all_not_initialized [OF closed]
  show ?thesis
    by (simp add: r createSession_def getSession_def getAllSessions_def setCurrentSession_def
        updateSession_def deleteSession_unfold saveLogs_def getSessionLogs_def
        createLogGroup_def
        getLogGroup_def getSessionLogGroups_def updateLogGroup_def assignLogsToGroup_def
        getGroupLogs_def Let_def)
qed

text \<open>The small store after a successful \<open>close\<close>, and a freshly constructed object.\<close>

theorem closed_store_fails_not_initialized_witness:
  "sm_close demo_store None = (Inr (), demo_closed)
   \<and> getSession demo_closed ''S1'' = Inl Database_not_initialized
   \<and> saveLogs demo_closed [demo_L3] = (Inl Database_not_initialized, demo_closed)
   \<and> deleteSession demo_closed ''S1'' = (Inl Database_not_initialized, demo_closed)
   \<and> getAllSessions new_StorageManager = Inl Database_not_initialized
   \<and> assignLogsToGroup new_StorageManager ''GA'' [''L1'']
        = (Inl Database_not_initialized, new_StorageManager)"
proof -
  have c: "sm_close demo_store None = (Inr (), demo_closed)"
    by (simp add: demo_closed_def sm_close_def close_def demo_store_eq)
  then have h1: "demo_closed = new_StorageManager
      \<or> (\<exists>m0 err. sm_close m0 err = (Inr (), demo_closed))"
    by blast
  have h2: "new_StorageManager = new_StorageManager
      \<or> (\<exists>m0 err. sm_close m0 err = (Inr (), new_StorageManager))"
    by simp
  have a1: "getSession demo_closed ''S1'' = Inl Database_not_initialized"
    using closed_store_fails_not_initialized [OF h1] by blast
  have a2: "saveLogs demo_closed [demo_L3] = (Inl Database_not_initialized, demo_closed)"
    using closed_store_fails_not_initialized [OF h1] by blast
  have a3: "deleteSession demo_closed ''S1'' = (Inl Database_not_initialized, demo_closed)"
    using closed_store_fails_not_initialized [OF h1] by blast
  have b1: "getAllSessions new_StorageManager = Inl Database_not_initialized"
    using closed_store_fails_not_initialized [OF h2] by blast
  have b2: "assignLogsToGroup new_StorageManager ''GA'' [''L1'']
        = (Inl Database_not_initialized, new_StorageManager)"
    using closed_store_fails_not_initialized [OF h2] by blast
  show ?thesis
    by (intro conjI c a1 a2 a3 b1 b2)
qed

text \<open>
  C9.  \<open>assignLogsToGroup\<close> validates nothing.  For every group identifier, whether or
  not a group with it is stored, and every list of log identifiers, the call succeeds;
  the tables \<open>sessions\<close> and \<open>log_groups\<close> are untouched; a row of \<open>logs\<close> whose
  identifier is in the list gets the given group identifier and all others stay as they
  are.  An update for an identifier that matches no row changes zero rows, and if no
  identifier of the list matches, the store is unchanged.
\<close>

theorem assignLogsToGroup_no_validation:
  assumes "db (sm_db m) = Some c" and "live c" and "journal c = None"
  shows "\<exists>m' c'. assignLogsToGroup m groupId logIds = (Inr (), m')
           \<and> db (sm_db m') = Some c' \<and> live c' \<and> journal c' = None
           \<and> sessions (tables c') = sessions (tables c)
           \<and> log_groups (tables c') = log_groups (tables c)
           \<and> logs (tables c') =
               map (\<lambda>r. if l_id r \<in> set logIds then r\<lparr>l_groupId := Some groupId\<rparr> else r)
                 (logs (tables c))
           \<and> (set logIds \<inter> l_id ` set (logs (tables c)) = {} \<longrightarrow> m' = m)
           \<and> (\<forall>logId. logId \<notin> l_id ` set (logs (tables c)) \<longrightarrow>
                 run (sm_db m) (sql_update_log_group_id groupId logId) = (Inr 0, sm_db m))
           \<and> (\<forall>r \<in> set (logs (tables c')). l_id r \<in> set logIds \<longrightarrow> l_groupId r = Some groupId)"
proof -
  have unmatched: "logId \<notin> l_id ` set (logs (tables c)) \<Longrightarrow>
      run (sm_db m) (sql_update_log_group_id groupId logId) = (Inr 0, sm_db m)" for logId
    using assms(1,2)
    by (simp add: run_update_log_group_id filter_unmatched map_unmatched)
  have same: "set logIds \<inter> l_id ` set (logs (tables c)) = {} \<Longrightarrow>
      m\<lparr>sm_db := (sm_db m)\<lparr>db := Some (c\<lparr>tables := (tables c)\<lparr>logs :=
                       assigned groupId (set logIds) (logs (tables c))\<rparr>\<rparr>)\<rparr>\<rparr> = m"
    using assms(1) by (simp add: assigned_unmatched)
  show ?thesis
    using assms unmatched same
    by (simp add: assignLogsToGroup_ok) (auto simp: assigned_def)
qed

text \<open>On the small store no group \<open>ghost\<close> and no log \<open>nope\<close> exist: assigning
  \<open>L2\<close> and \<open>nope\<close> to \<open>ghost\<close> succeeds, \<open>L2\<close> then refers to \<open>ghost\<close>, and
  assigning only \<open>nope\<close> changes nothing.\<close>

theorem assignLogsToGroup_no_validation_witness:
  "db (sm_db demo_store) = Some demo_conn \<and> live demo_conn \<and> journal demo_conn = None
   \<and> getLogGroup demo_store ''ghost'' = Inr None
   \<and> (\<exists>m' c'. assignLogsToGroup demo_store ''ghost'' [''L2'', ''nope''] = (Inr (), m')
         \<and> db (sm_db m') = Some c'
         \<and> log_groups (tables c') = [demo_GA, demo_GB]
         \<and> logs (tables c') = [demo_L1\<lparr>l_groupId := Some ''GA''\<rparr>,
                                demo_L2\<lparr>l_logLevel := None, l_groupId := Some ''ghost''\<rparr>])
   \<and> assignLogsToGroup demo_store ''ghost'' [''nope''] = (Inr (), demo_store)"
proof -
  note h = demo_open demo_live demo_no_transaction
  have g: "getLogGroup demo_store ''ghost'' = Inr None"
    by (simp add: getLogGroup_def get_live [OF demo_open demo_live] sql_select_log_group_def
        find_first_def demo_conn_def demo_tables_def demo_GA_def demo_GB_def)
  have rows: "log_groups (tables demo_conn) = [demo_GA, demo_GB]"
    "map (\<lambda>r. if l_id r \<in> set [''L2'', ''nope''] then r\<lparr>l_groupId := Some ''ghost''\<rparr> else r)
       (logs (tables demo_conn))
     = [demo_L1\<lparr>l_groupId := Some ''GA''\<rparr>,
        demo_L2\<lparr>l_logLevel := None, l_groupId := Some ''ghost''\<rparr>]"
    "set [''nope''] \<inter> l_id ` set (logs (tables demo_conn)) = {}"
    by (simp_all add: demo_conn_def demo_tables_def demo_L1_def demo_L2_def)
  from assignLogsToGroup_no_validation [OF h, of "''ghost''" "[''L2'', ''nope'']"]
  have a: "\<exists>m' c'. assignLogsToGroup demo_store ''ghost'' [''L2'', ''nope''] = (Inr (), m')
         \<and> db (sm_db m') = Some c'
         \<and> log_groups (tables c') = [demo_GA, demo_GB]
         \<and> logs (tables c') = [demo_L1\<lparr>l_groupId := Some ''GA''\<rparr>,
                                demo_L2\<lparr>l_logLevel := None, l_groupId := Some ''ghost''\<rparr>]"
    unfolding rows by blast
  from assignLogsToGroup_no_validation [OF h, of "''ghost''" "[''nope'']"] rows(3)
  have b: "assignLogsToGroup demo_store ''ghost'' [''nope''] = (Inr (), demo_store)"
    by blast
  show ?thesis
    by (intro conjI h g a b)
qed

text \<open>
  C10.  \<open>updateSession\<close> and \<open>updateLogGroup\<close> for an identifier that matches no stored
  row succeed and leave the store unchanged.  \<open>updateLogGroup\<close> returns its argument.
  \<open>updateSession\<close> returns its argument object: the record returned is the caller's
  object as it is after the call, which is the argument with \<open>updatedAt\<close> set to the
  clock reading.
\<close>

theorem update_unmatched_id_changes_nothing:
  assumes "db (sm_db m) = Some c" and "live c"
    and "s_id session \<notin> s_id ` set (sessions (tables c))"
    and "g_id logGroup \<notin> g_id ` set (log_groups (tables c))"
  shows "\<exists>session'. updateSession m session now = (Inr session', session', m)
           \<and> session' = session\<lparr>s_updatedAt := now\<rparr>
           \<and> updateLogGroup m logGroup = (Inr logGroup, m)"
  using assms
  by (simp add: updateSession_def updateLogGroup_def run_update_session run_update_log_group
      map_unmatched Let_def)

text \<open>On the small store no session \<open>S9\<close> and no group \<open>G9\<close> exist.\<close>

theorem update_unmatched_id_changes_nothing_witness:
  "db (sm_db demo_store) = Some demo_conn \<and> live demo_conn
   \<and> s_id (demo_session\<lparr>s_id := ''S9''\<rparr>) \<notin> s_id ` set (sessions (tables demo_conn))
   \<and> g_id (demo_GA\<lparr>g_id := ''G9'', g_name := ''Renamed''\<rparr>)
        \<notin> g_id ` set (log_groups (tables demo_conn))
   \<and> updateSession demo_store (demo_session\<lparr>s_id := ''S9''\<rparr>) 2000
        = (Inr (demo_session\<lparr>s_id := ''S9'', s_updatedAt := 2000\<rparr>),
           demo_session\<lparr>s_id := ''S9'', s_updatedAt := 2000\<rparr>, demo_store)
   \<and> updateLogGroup demo_store (demo_GA\<lparr>g_id := ''G9'', g_name := ''Renamed''\<rparr>)
        = (Inr (demo_GA\<lparr>g_id := ''G9'', g_name := ''Renamed''\<rparr>), demo_store)"
proof -
  have h3: "s_id (demo_session\<lparr>s_id := ''S9''\<rparr>) \<notin> s_id ` set (sessions (tables demo_conn))"
    by (simp add: demo_conn_def demo_tables_def demo_session_def)
  have h4: "g_id (demo_GA\<lparr>g_id := ''G9'', g_name := ''Renamed''\<rparr>)
        \<notin> g_id ` set (log_groups (tables demo_conn))"
    by (simp add: demo_conn_def demo_tables_def demo_GA_def demo_GB_def)
  note a = update_unmatched_id_changes_nothing [OF demo_open demo_live h3 h4, of 2000]
  show ?thesis
    using a by (intro conjI demo_open demo_live h3 h4) simp_all
qed

end
